theory Spec2Isabelle
  imports Main "HOL-Library.Word"
begin

unbundle bit_operations_syntax

section \<open>Bytes and C arrays\<close>

text \<open>
  The three programs are C. A \<^verbatim>\<open>uint8_t\<close> is an \<open>8 word\<close>, a \<^verbatim>\<open>uint16_t\<close> a
  \<open>16 word\<close> (so \<open>+\<close> wraps as the C conversion back to the unsigned type does).
  A plain \<^verbatim>\<open>int\<close> is an \<open>int\<close>: the counters held in one are far from the
  32-bit limits and signed overflow has no defined result in C.
  A byte array is a function from the index to the byte. The arrays of the source are
  16 KiB and 64 KiB long; an access beyond the end has no defined result in C, and the
  theorems that depend on it say which accesses they take to be inside the array.
\<close>

type_synonym u8 = "8 word"
type_synonym u16 = "16 word"
type_synonym bytes = "nat \<Rightarrow> u8"

text \<open>\<^verbatim>\<open>memcpy(dst + d, src + s, n)\<close> between two different arrays.\<close>

definition memcpy :: "bytes \<Rightarrow> nat \<Rightarrow> bytes \<Rightarrow> nat \<Rightarrow> nat \<Rightarrow> bytes" where
  "memcpy dst d src s n = (\<lambda>i. if d \<le> i \<and> i < d + n then src (s + (i - d)) else dst i)"

text \<open>An initialised array \<^verbatim>\<open>uint8_t a[] = { ... }\<close>, read by index.\<close>

definition arr :: "u8 list \<Rightarrow> bytes" where
  "arr xs = (\<lambda>i. if i < length xs then xs ! i else 0)"

text \<open>The bytes \<open>a[off] .. a[off + n - 1]\<close>, as handed to \<^verbatim>\<open>send\<close>.\<close>

definition slice :: "bytes \<Rightarrow> nat \<Rightarrow> nat \<Rightarrow> u8 list" where
  "slice a off n = map a [off ..< off + n]"


section \<open>DLSw router (DLSw\_rt.c)\<close>

subsection \<open>Constants\<close>

abbreviation (input) CANUREACH :: u8 where "CANUREACH \<equiv> 0x03"
abbreviation (input) ICANREACH :: u8 where "ICANREACH \<equiv> 0x04"
abbreviation (input) REACH_ACK :: u8 where "REACH_ACK \<equiv> 0x05"
abbreviation (input) XIDFRAME :: u8 where "XIDFRAME \<equiv> 0x07"
abbreviation (input) CONTACT :: u8 where "CONTACT \<equiv> 0x08"
abbreviation (input) CONTACTED :: u8 where "CONTACTED \<equiv> 0x09"
abbreviation (input) RESTART_DL :: u8 where "RESTART_DL \<equiv> 0x10"
abbreviation (input) DL_RESTARTED :: u8 where "DL_RESTARTED \<equiv> 0x11"
abbreviation (input) INFOFRAME :: u8 where "INFOFRAME \<equiv> 0x0A"
abbreviation (input) HALT_DL :: u8 where "HALT_DL \<equiv> 0x0E"
abbreviation (input) DL_HALTED :: u8 where "DL_HALTED \<equiv> 0x0F"
abbreviation (input) CAP_EXCHANGE :: u8 where "CAP_EXCHANGE \<equiv> 0x20"
abbreviation (input) IFCM :: u8 where "IFCM \<equiv> 0x21"

abbreviation (input) SSPex :: u8 where "SSPex \<equiv> 0x80"
abbreviation (input) DIR_TGT :: u8 where "DIR_TGT \<equiv> 0x01"
abbreviation (input) DIR_ORG :: u8 where "DIR_ORG \<equiv> 0x02"
abbreviation (input) DLSW_VER :: u8 where "DLSW_VER \<equiv> 0x31"
abbreviation (input) LEN_CTRL :: nat where "LEN_CTRL \<equiv> 72"
abbreviation (input) LEN_INFO :: nat where "LEN_INFO \<equiv> 16"

abbreviation (input) HDR_VER :: nat where "HDR_VER \<equiv> 0x00"
abbreviation (input) HDR_HLEN :: nat where "HDR_HLEN \<equiv> 0x01"
abbreviation (input) HDR_MLEN :: nat where "HDR_MLEN \<equiv> 0x02"
abbreviation (input) HDR_RDLC :: nat where "HDR_RDLC \<equiv> 0x04"
abbreviation (input) HDR_RDPID :: nat where "HDR_RDPID \<equiv> 0x08"
abbreviation (input) HDR_MTYP :: nat where "HDR_MTYP \<equiv> 0x0E"
abbreviation (input) HDR_FCB :: nat where "HDR_FCB \<equiv> 0x0F"
abbreviation (input) HDR_SFLG :: nat where "HDR_SFLG \<equiv> 0x15"
abbreviation (input) HDR_DIR :: nat where "HDR_DIR \<equiv> 0x26"
abbreviation (input) HDR_ODPID :: nat where "HDR_ODPID \<equiv> 0x2C"
abbreviation (input) HDR_ODLC :: nat where "HDR_ODLC \<equiv> 0x30"

abbreviation (input) FCB_FCI :: u8 where "FCB_FCI \<equiv> 0x80"
abbreviation (input) FCB_FCA :: u8 where "FCB_FCA \<equiv> 0x40"
abbreviation (input) FCO_RPT :: u8 where "FCO_RPT \<equiv> 0x00"

abbreviation (input) CAP_VID :: u8 where "CAP_VID \<equiv> 0x81"
abbreviation (input) CAP_VER :: u8 where "CAP_VER \<equiv> 0x82"
abbreviation (input) CAP_IPW :: u8 where "CAP_IPW \<equiv> 0x83"
abbreviation (input) CAP_SSL :: u8 where "CAP_SSL \<equiv> 0x86"
abbreviation (input) CAP_TCP :: u8 where "CAP_TCP \<equiv> 0x87"
abbreviation (input) CAP_IPW_OFF :: nat where "CAP_IPW_OFF \<equiv> 0x0D"

abbreviation (input) BFlag :: nat where "BFlag \<equiv> 0"
abbreviation (input) FAddr :: nat where "FAddr \<equiv> 1"
abbreviation (input) FCntl :: nat where "FCntl \<equiv> 2"
abbreviation (input) CFinal :: u8 where "CFinal \<equiv> 0x10"

abbreviation (input) CTS :: u8 where "CTS \<equiv> 0x80"
abbreviation (input) RI :: u8 where "RI \<equiv> 0x40"
abbreviation (input) DSR :: u8 where "DSR \<equiv> 0x20"
abbreviation (input) DCD :: u8 where "DCD \<equiv> 0x10"
abbreviation (input) RTS :: u8 where "RTS \<equiv> 0x08"
abbreviation (input) DTR :: u8 where "DTR \<equiv> 0x04"

abbreviation (input) OFF :: int where "OFF \<equiv> 0"
abbreviation (input) ON :: int where "ON \<equiv> 1"

definition CONTROL_MSG_Hdr :: "u8 list" where
  "CONTROL_MSG_Hdr =
     [DLSW_VER, 0x48, 0x00, 0x26, 0x00, 0x00, 0x00, 0x00,
      0x00, 0x00, 0x00, 0x00, 0x00, 0x00, 0x00, 0x00,
      0x42, 0x01, 0x00, 0x00, 0x00, 0x00, 0x00, 0x00,
      0x00, 0x00, 0x00, 0x00, 0x00, 0x00, 0x00, 0x00,
      0x00, 0x00, 0x00, 0x00, 0x00, 0x00, 0x01, 0x00,
      0x00, 0x00, 0x00, 0x00, 0x00, 0x00, 0x00, 0x00,
      0x00, 0x00, 0x00, 0x00, 0x00, 0x00, 0x00, 0x00,
      0x00, 0x00, 0x00, 0x00, 0x00, 0x00, 0x00, 0x00,
      0x00, 0x00, 0x00, 0x00, 0x00, 0x00, 0x00, 0x00]"

definition CAP_EXCHANGE_Msg :: "u8 list" where
  "CAP_EXCHANGE_Msg =
     [0x00, 0x26, 0x15, 0x20, 0x05, CAP_VID, 0x00, 0x00,
      0x00, 0x04, CAP_VER, 0x02, 0x00, 0x04, CAP_IPW, 0x00,
      0x14, 0x12, CAP_SSL, 0xFF, 0xFF, 0xFF, 0xFF, 0xFF,
      0xFF, 0xFF, 0xFF, 0xFF, 0xFF, 0xFF, 0xFF, 0xFF,
      0xFF, 0xFF, 0xFF, 0x03, CAP_TCP, 0x02]"

definition CAP_EXCHANGE_Rsp :: "u8 list" where
  "CAP_EXCHANGE_Rsp = [0x00, 0x4, 0x15, 0x21]"

definition XIDFRAME_Rsp :: "u8 list" where
  "XIDFRAME_Rsp =
     [0x14, 0x01, 0x00, 0x00, 0x00, 0x00, 0x00, 0x00,
      0x00, 0x00, 0x00, 0x00, 0x00, 0x00, 0x00, 0x00,
      0x00, 0x00, 0x00, 0x00]"

definition INFOFRAME_Hdr :: "u8 list" where
  "INFOFRAME_Hdr =
     [DLSW_VER, 0x10, 0x00, 0x00, 0x00, 0x00, 0x00, 0x00,
      0x00, 0x00, 0x00, 0x00, 0x00, 0x00, 0x00, 0x00]"

definition SDLC_FCSLT :: "u8 list" where
  "SDLC_FCSLT = [0x47, 0x0F, 0x7E]"

subsection \<open>State\<close>

text \<open>The DLSw circuit states (the \<^verbatim>\<open>#define\<close>s 0 to 6 of the source).\<close>

datatype circuit =
  DISCONNECTED | CIRCUIT_PENDING | CIRCUIT_START | CIRCUIT_RESTART
  | CIRCUIT_ESTABLISHED | CONNECT_PENDING | CONNECTED

text \<open>
  The global variables that \<^verbatim>\<open>proc_DLSw\<close> reads or writes. \<open>DLSw_wbuf\<close> is the
  write buffer the caller passes in (the global of that name). The two last fields are
  the effects on the sockets: \<open>dlsw_wfd_sent\<close> lists the byte strings handed to
  \<^verbatim>\<open>send(dlsw_wfd, ...)\<close>, in call order, and \<open>rs232_fd_sent\<close> the bytes handed to
  \<^verbatim>\<open>send(rs232_fd, ...)\<close>. The trace file, the console output and the variable
  \<^verbatim>\<open>rc\<close> (which only the trace prints) are left out.
\<close>

record dlsw =
  dlc :: bytes
  dlc_pid :: bytes
  SDLC_wbuf :: bytes
  DLSw_wbuf :: bytes
  SDLCwlen :: u16
  IFRAMlen :: u16
  fc_byte :: u8
  fca_owed :: int
  fca_due :: int
  fc_init_window_size :: int
  fc_current_window :: int
  rp_granted_units :: int
  lp_granted_units :: int
  flow_control :: int
  conlfd :: int
  seq_Nr :: u8
  seq_Ns :: u8
  state :: circuit
  IDBLK :: u16
  IDNUM :: u16
  PUtype :: u8
  dlsw_wfd_sent :: "u8 list list"
  rs232_fd_sent :: "u8 list"

subsection \<open>proc\_DLSw: flow control (lines 462 to 500)\<close>

text \<open>
  Returns the local \<^verbatim>\<open>DLSwwlen\<close> (0, or 16 once the flow control message has been
  built and sent) and the new state.
\<close>

definition flow_ctl :: "bytes \<Rightarrow> dlsw \<Rightarrow> int \<times> dlsw" where
  "flow_ctl DLSw_rbuf s0 =
    (let s1 = s0\<lparr>fc_byte := 0x00\<rparr>;
         s2 = (if DLSw_rbuf HDR_FCB AND FCB_FCI \<noteq> 0
               then s1\<lparr>fc_byte := fc_byte s1 OR FCB_FCA, fca_due := 1\<rparr> else s1)
     in if flow_control s2 \<noteq> 0 then
          (let s3 = s2\<lparr>rp_granted_units := rp_granted_units s2 - 1\<rparr>;
               s4 = (if DLSw_rbuf HDR_FCB AND FCB_FCA \<noteq> 0
                     then (if fca_owed s3 \<noteq> 0 then s3\<lparr>fca_owed := 0\<rparr> else s3)
                     else s3)
           in if fca_owed s4 = 0 then
                (if rp_granted_units s4 \<le> fc_current_window s4 then
                   (let w1 = memcpy (DLSw_wbuf s4) 0 (arr INFOFRAME_Hdr) 0 (length INFOFRAME_Hdr);
                        w2 = w1(HDR_MTYP := IFCM);
                        w3 = w2(HDR_FCB := FCB_FCI OR FCO_RPT);
                        s5 = s4\<lparr>fca_owed := 1,
                                rp_granted_units := rp_granted_units s4 + fc_current_window s4\<rparr>;
                        w4 = memcpy w3 HDR_RDLC (dlc s5) 0 4;
                        w5 = memcpy w4 HDR_RDPID (dlc_pid s5) 0 4;
                        w6 = w5(HDR_MLEN := 0x00);
                        w7 = w6(HDR_MLEN + 1 := 0x00);
                        DLSwwlen = length INFOFRAME_Hdr
                    in (int DLSwwlen,
                        s5\<lparr>DLSw_wbuf := w7,
                           dlsw_wfd_sent := dlsw_wfd_sent s5 @ [slice w7 0 DLSwwlen]\<rparr>))
                 else (0, s4))
              else (0, s4))
        else (0, s2))"

subsection \<open>proc\_DLSw: the message switch (lines 504 to 732)\<close>

text \<open>
  Each case of the \<^verbatim>\<open>switch (MSG_type)\<close> is one definition. It takes the received
  buffer, the header fields read at the top of the function, the value of
  \<^verbatim>\<open>DLSwwlen\<close> so far and the state, and returns \<^verbatim>\<open>DLSwwlen\<close> and the state.
\<close>

definition case_CANUREACH :: "bytes \<Rightarrow> u8 \<Rightarrow> int \<Rightarrow> dlsw \<Rightarrow> int \<times> dlsw" where
  "case_CANUREACH DLSw_rbuf HDR_len DLSwwlen s =
    (if conlfd s = ON then
       (let w1 = memcpy (DLSw_wbuf s) 0 DLSw_rbuf 0 (unat HDR_len);
            w2 = w1(HDR_MTYP := ICANREACH);
            w3 = w2(HDR_MLEN := w2 HDR_MLEN AND 0x00);
            w4 = w3(HDR_MLEN + 1 := w3 (HDR_MLEN + 1) AND 0x00);
            w5 = w4(HDR_DIR := DIR_ORG);
            w6 = w5(HDR_SFLG := DLSw_rbuf HDR_SFLG);
            w7 = memcpy w6 HDR_RDLC DLSw_rbuf HDR_ODLC 4;
            w8 = memcpy w7 HDR_RDPID DLSw_rbuf HDR_ODPID 4
        in (uint HDR_len, s\<lparr>DLSw_wbuf := w8, state := CIRCUIT_START\<rparr>))
     else (DLSwwlen, s))"

definition case_REACH_ACK :: "bytes \<Rightarrow> int \<Rightarrow> dlsw \<Rightarrow> int \<times> dlsw" where
  "case_REACH_ACK DLSw_rbuf DLSwwlen s =
    (DLSwwlen,
     s\<lparr>state := CIRCUIT_ESTABLISHED, flow_control := 1,
       dlc := memcpy (dlc s) 0 DLSw_rbuf HDR_ODLC 4,
       dlc_pid := memcpy (dlc_pid s) 0 DLSw_rbuf HDR_ODPID 4\<rparr>)"

definition case_XIDFRAME :: "bytes \<Rightarrow> u16 \<Rightarrow> u8 \<Rightarrow> int \<Rightarrow> dlsw \<Rightarrow> int \<times> dlsw" where
  "case_XIDFRAME DLSw_rbuf MSG_len HDR_len DLSwwlen s =
    (if MSG_len > 0 then
       (let h = unat HDR_len;
            s1 = s\<lparr>PUtype := DLSw_rbuf h,
                   IDBLK := push_bit 8 (ucast (DLSw_rbuf (h + 2))) + ucast (DLSw_rbuf (h + 3)),
                   IDNUM := push_bit 8 (ucast (DLSw_rbuf (h + 4))) + ucast (DLSw_rbuf (h + 5))\<rparr>;
            w1 = memcpy (DLSw_wbuf s1) 0 DLSw_rbuf 0 h;
            w2 = w1(HDR_MTYP := CONTACT);
            w3 = w2(HDR_MLEN := w2 HDR_MLEN AND 0x00);
            w4 = w3(HDR_MLEN + 1 := w3 (HDR_MLEN + 1) AND 0x00);
            w5 = w4(HDR_DIR := DIR_ORG);
            w6 = w5(HDR_FCB := fc_byte s1);
            w7 = memcpy w6 HDR_RDLC DLSw_rbuf HDR_ODLC 4;
            w8 = memcpy w7 HDR_RDPID DLSw_rbuf HDR_ODPID 4
        in (uint HDR_len, s1\<lparr>DLSw_wbuf := w8\<rparr>))
     else
       (let w1 = memcpy (DLSw_wbuf s) 0 DLSw_rbuf 0 (unat HDR_len);
            w2 = w1(HDR_MTYP := XIDFRAME);
            w3 = w2(HDR_DIR := DIR_ORG);
            w4 = w3(HDR_FCB := fc_byte s);
            w5 = memcpy w4 HDR_RDLC DLSw_rbuf HDR_ODLC 4;
            w6 = memcpy w5 HDR_RDPID DLSw_rbuf HDR_ODPID 4;
            w7 = memcpy w6 (length CONTROL_MSG_Hdr) (arr XIDFRAME_Rsp) 0 (length XIDFRAME_Rsp);
            w8 = w7(HDR_MLEN := of_nat (drop_bit 8 (length XIDFRAME_Rsp)) AND 0xFF);
            w9 = w8(HDR_MLEN + 1 := of_nat (length XIDFRAME_Rsp) AND 0x00FF)
        in (int (length CONTROL_MSG_Hdr + length XIDFRAME_Rsp), s\<lparr>DLSw_wbuf := w9\<rparr>)))"

definition case_CONTACT :: "bytes \<Rightarrow> u8 \<Rightarrow> dlsw \<Rightarrow> int \<times> dlsw" where
  "case_CONTACT DLSw_rbuf HDR_len s =
    (let w1 = memcpy (DLSw_wbuf s) 0 DLSw_rbuf 0 (unat HDR_len);
         w2 = w1(HDR_MLEN := w1 HDR_MLEN AND 0x00);
         w3 = w2(HDR_MLEN + 1 := w2 (HDR_MLEN + 1) AND 0x00);
         w4 = w3(HDR_MTYP := CONTACT);
         w5 = w4(HDR_DIR := DIR_ORG);
         w6 = w5(HDR_FCB := fc_byte s);
         w7 = memcpy w6 HDR_RDLC DLSw_rbuf HDR_ODLC 4;
         w8 = memcpy w7 HDR_RDPID DLSw_rbuf HDR_ODPID 4
     in (uint HDR_len, s\<lparr>DLSw_wbuf := w8, state := CONNECT_PENDING\<rparr>))"

definition case_CONTACTED :: "bytes \<Rightarrow> int \<Rightarrow> dlsw \<Rightarrow> int \<times> dlsw" where
  "case_CONTACTED DLSw_rbuf DLSwwlen s =
    (let signal = RTS
     in (DLSwwlen,
         s\<lparr>dlc := memcpy (dlc s) 0 DLSw_rbuf HDR_ODLC 4,
           dlc_pid := memcpy (dlc_pid s) 0 DLSw_rbuf HDR_ODPID 4,
           state := CONNECTED,
           rs232_fd_sent := rs232_fd_sent s @ [signal]\<rparr>))"

definition case_ICANREACH :: "bytes \<Rightarrow> u8 \<Rightarrow> dlsw \<Rightarrow> int \<times> dlsw" where
  "case_ICANREACH DLSw_rbuf HDR_len s =
    (let w1 = memcpy (DLSw_wbuf s) 0 DLSw_rbuf 0 (unat HDR_len);
         w2 = w1(HDR_MLEN := w1 HDR_MLEN AND 0x00);
         w3 = w2(HDR_MLEN + 1 := w2 (HDR_MLEN + 1) AND 0x00);
         w4 = w3(HDR_MTYP := REACH_ACK);
         w5 = w4(HDR_DIR := DIR_ORG);
         w6 = w5(HDR_FCB := fc_byte s);
         w7 = memcpy w6 HDR_RDLC DLSw_rbuf HDR_ODLC 4;
         w8 = memcpy w7 HDR_RDPID DLSw_rbuf HDR_ODPID 4
     in (uint HDR_len, s\<lparr>DLSw_wbuf := w8\<rparr>))"

text \<open>
  INFOFRAME: the message body becomes an SDLC I-frame in \<open>SDLC_wbuf\<close>, behind a two-byte
  length prefix. \<open>SDLCwlen\<close> is a \<^verbatim>\<open>uint16_t\<close>: \<^verbatim>\<open>SDLCwlen++\<close> and the final sum wrap;
  the indices \<^verbatim>\<open>SDLCwlen + 3\<close>, ... are computed in \<^verbatim>\<open>int\<close> and do not.
\<close>

definition case_INFOFRAME :: "bytes \<Rightarrow> u16 \<Rightarrow> u8 \<Rightarrow> int \<Rightarrow> dlsw \<Rightarrow> int \<times> dlsw" where
  "case_INFOFRAME DLSw_rbuf MSG_len HDR_len DLSwwlen s =
    (let iframlen = MSG_len + 6;
         b1 = (SDLC_wbuf s)(unat (SDLCwlen s) := ucast (drop_bit 8 iframlen));
         l1 = SDLCwlen s + 1;
         b2 = b1(unat l1 := ucast (iframlen AND 0x00FF));
         l2 = l1 + 1;
         L = unat l2;
         b3 = memcpy b2 (L + 3) DLSw_rbuf (unat HDR_len) (unat MSG_len);
         b4 = b3(L + BFlag := 0x7E);
         b5 = b4(L + FCntl := 0x00 + CFinal);
         b6 = b5(L + FAddr := 0xC1);
         b7 = b6(L + FCntl := (b6 (L + FCntl) AND 0x1F) OR push_bit 5 (seq_Nr s));
         b8 = b7(L + FCntl := (b7 (L + FCntl) AND 0xF1) OR push_bit 1 (seq_Ns s));
         b9 = memcpy b8 (L + 3 + unat MSG_len) (arr SDLC_FCSLT) 0 3;
         ns1 = seq_Ns s + 1;
         ns2 = (if ns1 = 8 then 0 else ns1)
     in (DLSwwlen,
         s\<lparr>IFRAMlen := iframlen, SDLC_wbuf := b9, seq_Ns := ns2,
           SDLCwlen := l2 + MSG_len + 6\<rparr>))"

definition case_HALT_DL :: "bytes \<Rightarrow> u8 \<Rightarrow> dlsw \<Rightarrow> int \<times> dlsw" where
  "case_HALT_DL DLSw_rbuf HDR_len s =
    (let w1 = memcpy (DLSw_wbuf s) 0 DLSw_rbuf 0 (unat HDR_len);
         w2 = w1(HDR_MLEN := w1 HDR_MLEN AND 0x00);
         w3 = w2(HDR_MLEN + 1 := w2 (HDR_MLEN + 1) AND 0x00);
         w4 = w3(HDR_MTYP := DL_HALTED);
         w5 = w4(HDR_DIR := DIR_ORG);
         w6 = memcpy w5 HDR_RDLC DLSw_rbuf HDR_ODLC 4;
         w7 = memcpy w6 HDR_RDPID DLSw_rbuf HDR_ODPID 4;
         signal = NOT RTS
     in (uint HDR_len,
         s\<lparr>DLSw_wbuf := w7, rs232_fd_sent := rs232_fd_sent s @ [signal]\<rparr>))"

definition case_RESTART_DL :: "bytes \<Rightarrow> u8 \<Rightarrow> dlsw \<Rightarrow> int \<times> dlsw" where
  "case_RESTART_DL DLSw_rbuf HDR_len s =
    (let w1 = memcpy (DLSw_wbuf s) 0 DLSw_rbuf 0 (unat HDR_len);
         w2 = w1(HDR_MLEN := w1 HDR_MLEN AND 0x00);
         w3 = w2(HDR_MLEN + 1 := w2 (HDR_MLEN + 1) AND 0x00);
         w4 = w3(HDR_MTYP := DL_RESTARTED);
         w5 = w4(HDR_DIR := DIR_ORG);
         w6 = memcpy w5 HDR_RDLC DLSw_rbuf HDR_ODLC 4;
         w7 = memcpy w6 HDR_RDPID DLSw_rbuf HDR_ODPID 4
     in (uint HDR_len, s\<lparr>DLSw_wbuf := w7\<rparr>))"

definition case_CAP_EXCHANGE :: "bytes \<Rightarrow> u8 \<Rightarrow> int \<Rightarrow> dlsw \<Rightarrow> int \<times> dlsw" where
  "case_CAP_EXCHANGE DLSw_rbuf HDR_len DLSwwlen s =
    (let h = unat HDR_len;
         GDS_id = (push_bit 8 (ucast (DLSw_rbuf (h + 2))) OR ucast (DLSw_rbuf (h + 3)) :: u16)
     in if GDS_id = 0x1520 then
          (let s1 = s\<lparr>fc_init_window_size :=
                        push_bit 8 (uint (DLSw_rbuf (h + CAP_IPW_OFF + 2)))
                          + uint (DLSw_rbuf (h + CAP_IPW_OFF + 3))\<rparr>;
               s2 = s1\<lparr>fc_current_window := fc_init_window_size s1\<rparr>;
               s3 = s2\<lparr>rp_granted_units := fc_current_window s2\<rparr>;
               s4 = s3\<lparr>lp_granted_units := fc_current_window s3\<rparr>;
               s5 = s4\<lparr>fca_owed := 0\<rparr>;
               w1 = memcpy (DLSw_wbuf s5) 0 (arr CONTROL_MSG_Hdr) 0 (length CONTROL_MSG_Hdr);
               w2 = w1(HDR_MTYP := CAP_EXCHANGE);
               w3 = w2(HDR_DIR := DIR_TGT);
               w4 = memcpy w3 (length CONTROL_MSG_Hdr) (arr CAP_EXCHANGE_Rsp) 0
                      (length CAP_EXCHANGE_Rsp);
               w5 = memcpy w4 HDR_MLEN (arr CAP_EXCHANGE_Rsp) 0 2
           in (int (length CONTROL_MSG_Hdr + length CAP_EXCHANGE_Rsp), s5\<lparr>DLSw_wbuf := w5\<rparr>))
        else if GDS_id = 0x1521 then (DLSwwlen, s)
        else (DLSwwlen, s))"

definition proc_DLSw :: "bytes \<Rightarrow> dlsw \<Rightarrow> int \<times> dlsw" where
  "proc_DLSw DLSw_rbuf s0 =
    (let MSG_type = DLSw_rbuf HDR_MTYP;
         MSG_len = (push_bit 8 (ucast (DLSw_rbuf HDR_MLEN)) + ucast (DLSw_rbuf (HDR_MLEN + 1)) :: u16);
         HDR_len = DLSw_rbuf HDR_HLEN;
         (DLSwwlen, s) = flow_ctl DLSw_rbuf s0
     in if MSG_type = CANUREACH then case_CANUREACH DLSw_rbuf HDR_len DLSwwlen s
        else if MSG_type = REACH_ACK then case_REACH_ACK DLSw_rbuf DLSwwlen s
        else if MSG_type = XIDFRAME then case_XIDFRAME DLSw_rbuf MSG_len HDR_len DLSwwlen s
        else if MSG_type = CONTACT then case_CONTACT DLSw_rbuf HDR_len s
        else if MSG_type = CONTACTED then case_CONTACTED DLSw_rbuf DLSwwlen s
        else if MSG_type = ICANREACH then case_ICANREACH DLSw_rbuf HDR_len s
        else if MSG_type = INFOFRAME then case_INFOFRAME DLSw_rbuf MSG_len HDR_len DLSwwlen s
        else if MSG_type = HALT_DL then case_HALT_DL DLSw_rbuf HDR_len s
        else if MSG_type = RESTART_DL then case_RESTART_DL DLSw_rbuf HDR_len s
        else if MSG_type = CAP_EXCHANGE then case_CAP_EXCHANGE DLSw_rbuf HDR_len DLSwwlen s
        else (DLSwwlen, s))"

text \<open>
  The caller, \<^verbatim>\<open>main\<close> (lines 1023 to 1025): the reply that \<^verbatim>\<open>proc_DLSw\<close> left in
  \<open>DLSw_wbuf\<close> is sent when the returned length is not zero.
\<close>

definition main_recv :: "bytes \<Rightarrow> dlsw \<Rightarrow> dlsw" where
  "main_recv DLSw_rbuf s0 =
    (let (DLSwwlen, s) = proc_DLSw DLSw_rbuf s0
     in if DLSwwlen \<noteq> 0
        then s\<lparr>dlsw_wfd_sent := dlsw_wfd_sent s @ [slice (DLSw_wbuf s) 0 (nat DLSwwlen)]\<rparr>
        else s)"

text \<open>\<^verbatim>\<open>main\<close>, lines 943 to 945 and again on an SNRM (lines 1184 to 1186).\<close>

definition seq_reset :: "dlsw \<Rightarrow> dlsw" where
  "seq_reset s = s\<lparr>seq_Nr := 0, seq_Ns := 0, SDLCwlen := 0\<rparr>"

text \<open>A run of received messages, each handed to \<^verbatim>\<open>proc_DLSw\<close> in turn.\<close>

fun proc_DLSw_seq :: "bytes list \<Rightarrow> dlsw \<Rightarrow> dlsw" where
  "proc_DLSw_seq [] s = s"
| "proc_DLSw_seq (m # ms) s = proc_DLSw_seq ms (snd (proc_DLSw m s))"

text \<open>
  The globals as the C runtime initialises them (all zero; \<open>state\<close> 0 is DISCONNECTED).
\<close>

definition dlsw_init :: dlsw where
  "dlsw_init =
    \<lparr>dlc = (\<lambda>_. 0), dlc_pid = (\<lambda>_. 0), SDLC_wbuf = (\<lambda>_. 0), DLSw_wbuf = (\<lambda>_. 0),
     SDLCwlen = 0, IFRAMlen = 0, fc_byte = 0, fca_owed = 0, fca_due = 0,
     fc_init_window_size = 0, fc_current_window = 0, rp_granted_units = 0,
     lp_granted_units = 0, flow_control = 0, conlfd = OFF, seq_Nr = 0, seq_Ns = 0,
     state = DISCONNECTED, IDBLK = 0, IDNUM = 0, PUtype = 0,
     dlsw_wfd_sent = [], rs232_fd_sent = []\<rparr>"

text \<open>
  A sent message is an IFCM with the repeat operator: 16 bytes, type \<open>0x21\<close>, flow
  control byte \<open>FCI | FCO_RPT\<close>.
\<close>

definition is_IFCM_RPT :: "u8 list \<Rightarrow> bool" where
  "is_IFCM_RPT m = (length m = 16 \<and> m ! HDR_MTYP = IFCM \<and> m ! HDR_FCB = FCB_FCI OR FCO_RPT)"

definition ifcm_sent :: "dlsw \<Rightarrow> nat" where
  "ifcm_sent s = length (filter is_IFCM_RPT (dlsw_wfd_sent s))"

text \<open>A received buffer holds a capabilities request: type \<open>0x20\<close> with GDS id \<open>0x1520\<close>.\<close>

definition is_cap_request :: "bytes \<Rightarrow> bool" where
  "is_cap_request m =
    (m HDR_MTYP = CAP_EXCHANGE \<and>
     (push_bit 8 (ucast (m (unat (m HDR_HLEN) + 2))) OR ucast (m (unat (m HDR_HLEN) + 3)) :: u16)
       = 0x1520)"

text \<open>
  Example messages: the capabilities request that \<^verbatim>\<open>main\<close> itself sends to a peer
  (control header of type CAP\_EXCHANGE, then \<open>CAP_EXCHANGE_Msg\<close>, initial window 20), and
  a header-only message of a given type, header length and flow control byte.
\<close>

definition capex_request :: bytes where
  "capex_request = arr (CONTROL_MSG_Hdr[HDR_MTYP := CAP_EXCHANGE] @ CAP_EXCHANGE_Msg)"

definition ctl_msg :: "u8 \<Rightarrow> u8 \<Rightarrow> u8 \<Rightarrow> bytes" where
  "ctl_msg hlen mtyp fcb = (arr [DLSW_VER, hlen])(HDR_MTYP := mtyp, HDR_FCB := fcb)"

text \<open>
  The pacing state right after REACH\_ACK and a capabilities exchange that adopted the
  window \<open>w\<close>: flow control on, all three counters equal to \<open>w\<close>, no acknowledge owed.
\<close>

definition paced :: "int \<Rightarrow> dlsw" where
  "paced w = dlsw_init\<lparr>fc_init_window_size := w, fc_current_window := w,
      rp_granted_units := w, lp_granted_units := w, flow_control := 1\<rparr>"

text \<open>Five information frames in a row, none of them acknowledging anything.\<close>

definition five_frames :: "bytes list" where
  "five_frames = replicate 5 (ctl_msg 16 INFOFRAME 0)"

text \<open>
  For a run of received messages, each taken through the receive step of \<^verbatim>\<open>main\<close>, the
  number of IFCM repeat messages that went out on the DLSw socket while each one was
  handled.
\<close>

fun main_marks :: "bytes list \<Rightarrow> dlsw \<Rightarrow> nat list" where
  "main_marks [] s = []"
| "main_marks (m # ms) s =
     (ifcm_sent (main_recv m s) - ifcm_sent s) # main_marks ms (main_recv m s)"

text \<open>A received buffer holds an information frame (type \<open>0x0A\<close>).\<close>

definition is_INFOFRAME :: "bytes \<Rightarrow> bool" where
  "is_INFOFRAME m = (m HDR_MTYP = INFOFRAME)"

text \<open>A received buffer holds a HALT\_DL (type \<open>0x0E\<close>).\<close>

definition is_HALT_DL :: "bytes \<Rightarrow> bool" where
  "is_HALT_DL m = (m HDR_MTYP = HALT_DL)"

text \<open>A sent message is a DL\_HALTED: long enough to hold the type byte, which is \<open>0x0F\<close>.\<close>

definition is_DL_HALTED :: "u8 list \<Rightarrow> bool" where
  "is_DL_HALTED r = (HDR_MTYP < length r \<and> r ! HDR_MTYP = DL_HALTED)"

text \<open>The messages handed to \<^verbatim>\<open>send(dlsw_wfd, ...)\<close> between two states.\<close>

definition sent_since :: "dlsw \<Rightarrow> dlsw \<Rightarrow> u8 list list" where
  "sent_since s s' = drop (length (dlsw_wfd_sent s)) (dlsw_wfd_sent s')"

text \<open>
  Example messages: an information frame with a 16-byte header and the ten payload
  bytes 1 to 10, and a HALT\_DL with a 72-byte control header, origin correlator
  \<open>01 02 03 04\<close> and origin port id \<open>0A 0B 0C 0D\<close>.
\<close>

definition info10 :: bytes where
  "info10 = arr ([DLSW_VER, 0x10, 0x00, 0x0A, 0, 0, 0, 0, 0, 0, 0, 0, 0, 0, INFOFRAME, 0x00]
                 @ [1, 2, 3, 4, 5, 6, 7, 8, 9, 10])"

definition halt_msg :: bytes where
  "halt_msg = memcpy (memcpy (arr (CONTROL_MSG_Hdr[HDR_MTYP := HALT_DL])) HDR_ODLC
                (arr [0x01, 0x02, 0x03, 0x04]) 0 4) HDR_ODPID (arr [0x0A, 0x0B, 0x0C, 0x0D]) 0 4"


section \<open>Line Interface Base (i3705\_lib.c)\<close>

subsection \<open>State\<close>

abbreviation (input) BUFLEN_327x :: nat where "BUFLEN_327x \<equiv> 16384"

text \<open>\<^verbatim>\<open>struct LIBLine\<close>, one per line.\<close>

record LIBLine =
  line_fd :: int
  linenum :: int
  d327x_fd :: int
  s327x_fd :: int
  epoll_fd :: int
  LIB_rbuf :: bytes
  LIB_tbuf :: bytes
  LIBrlen :: u16
  LIBtlen :: u16
  LIBsync :: int

text \<open>
  The two TCP connections of a line, as the program sees them: whether
  \<^verbatim>\<open>getpeername\<close> still succeeds on the data and on the signal socket, the bytes
  waiting to be read on each (what \<^verbatim>\<open>FIONREAD\<close> counts and \<^verbatim>\<open>read\<close> delivers), and
  what has been handed to \<^verbatim>\<open>send\<close> on each, in call order (whole byte strings on the
  data socket, single bytes on the signal socket).
\<close>

record sockets =
  d_peer :: bool
  d_pending :: "u8 list"
  d_sent :: "u8 list list"
  s_peer :: bool
  s_pending :: "u8 list"
  s_sent :: "u8 list"

text \<open>
  Modelled from the spec: the header \<^verbatim>\<open>i3705_scanner.h\<close> with the values of
  \<^verbatim>\<open>RESET\<close>, \<^verbatim>\<open>TX\<close>, \<^verbatim>\<open>RX\<close> and of \<^verbatim>\<open>EMPTY\<close>, \<^verbatim>\<open>FILLED\<close> is not among the sources;
  the spec gives the line state as one of RESET, TX, RX and the PDF handshake flag as
  one of EMPTY, FILLED. The code only assigns and compares them.
\<close>

datatype lne_state = RESET | TX | RX

datatype pdf_state = EMPTY | FILLED

text \<open>
  The globals of the LIB and of the scanner, which share the RS-232 bytes and call into
  each other. Arrays over the lines are functions of the line number. \<open>transmitChar\<close>
  and \<open>receivedChar\<close> are locals of the scanner thread that live across scan cycles.
  The trace output is left out.
\<close>

record i3705 =
  LIBline :: "nat \<Rightarrow> LIBLine"
  net :: "nat \<Rightarrow> sockets"
  RS232 :: "nat \<Rightarrow> u8"
  RS232r :: "nat \<Rightarrow> u8"
  RS232x :: "nat \<Rightarrow> u8"
  prev_state :: u8
  icw_scf :: "nat \<Rightarrow> u8"
  icw_pdf :: "nat \<Rightarrow> u8"
  icw_lcd :: "nat \<Rightarrow> u8"
  icw_pcf :: "nat \<Rightarrow> u8"
  icw_sdf :: "nat \<Rightarrow> u8"
  icw_pcf_prev :: "nat \<Rightarrow> u8"
  icw_lne_stat :: "nat \<Rightarrow> lne_state"
  icw_pcf_nxt :: "nat \<Rightarrow> u8"
  icw_pdf_reg :: "nat \<Rightarrow> pdf_state"
  Eflg_rcvd :: "nat \<Rightarrow> int"
  FCS_rcvd :: "nat \<Rightarrow> nat \<Rightarrow> u8"
  CS2_req_L2_int :: int
  svc_req_L2 :: int
  lvl :: int
  receivedChar :: "nat \<Rightarrow> u8"
  transmitChar :: u8

text \<open>Assignments to \<open>LIBline[k]->...\<close>, \<open>RS232[k]\<close> and to the sockets of line \<open>k\<close>.\<close>

definition line_upd :: "nat \<Rightarrow> (LIBLine \<Rightarrow> LIBLine) \<Rightarrow> i3705 \<Rightarrow> i3705" where
  "line_upd k f s = s\<lparr>LIBline := (LIBline s)(k := f (LIBline s k))\<rparr>"

definition net_upd :: "nat \<Rightarrow> (sockets \<Rightarrow> sockets) \<Rightarrow> i3705 \<Rightarrow> i3705" where
  "net_upd k f s = s\<lparr>net := (net s)(k := f (net s k))\<rparr>"

definition RS232_upd :: "nat \<Rightarrow> (u8 \<Rightarrow> u8) \<Rightarrow> i3705 \<Rightarrow> i3705" where
  "RS232_upd k f s = s\<lparr>RS232 := (RS232 s)(k := f (RS232 s k))\<rparr>"

subsection \<open>Functions\<close>

definition proc_LIBdisbuf :: "nat \<Rightarrow> i3705 \<Rightarrow> i3705" where
  "proc_LIBdisbuf k s =
    (if LIBrlen (LIBline s k) \<noteq> 0 then line_upd k (\<lambda>l. l\<lparr>LIBrlen := 0\<rparr>) s else s)"

text \<open>\<^verbatim>\<open>ShiftLeft\<close>: the loop \<^verbatim>\<open>for (i = 1; i < len; i++) buffer[i - 1] = buffer[i]\<close>.\<close>

function ShiftLeft_loop :: "nat \<Rightarrow> int \<Rightarrow> bytes \<Rightarrow> bytes" where
  "ShiftLeft_loop i len buffer =
    (if int i < len then ShiftLeft_loop (i + 1) len (buffer(i - 1 := buffer i)) else buffer)"
  by pat_completeness auto
termination
  by (relation "measure (\<lambda>(i, len, buffer). nat (len - int i))") auto

definition ShiftLeft :: "bytes \<Rightarrow> int \<Rightarrow> bytes \<times> int" where
  "ShiftLeft buffer len = (ShiftLeft_loop 1 len buffer, len - 1)"

text \<open>\<open>peer\<close> says whether \<^verbatim>\<open>getpeername\<close> returns 0 for the descriptor.\<close>

definition IsSocketConnected :: "int \<Rightarrow> bool \<Rightarrow> bool" where
  "IsSocketConnected sockfd peer = (if sockfd < 1 then False else peer)"

text \<open>
  \<^verbatim>\<open>ReadSig\<close>. The bytes waiting on the signal socket are read one at a time only
  when more than one is waiting (the \<^verbatim>\<open>if (pendingrcv > 1)\<close> in front of the loop);
  then \<^verbatim>\<open>sig\<close> is the last of them and \<^verbatim>\<open>rc\<close> is 1. Otherwise \<^verbatim>\<open>rc\<close> is still what
  \<^verbatim>\<open>ioctl\<close> returned, which is never 1. On a lost connection both descriptors are
  closed and reset; re-arming the listener changes no variable of the program.
\<close>

text \<open>The four signal rules at the start of \<^verbatim>\<open>ReadSig\<close> (lines 256 to 270), in order.\<close>

definition sig_DSR_on :: "nat \<Rightarrow> i3705 \<Rightarrow> i3705" where
  "sig_DSR_on k s =
    (if RS232 s k AND DTR \<noteq> 0 \<and> \<not> (RS232 s k AND DSR \<noteq> 0)
     then RS232_upd k (\<lambda>r. r OR DSR) s else s)"

definition sig_RTS_remote :: "nat \<Rightarrow> i3705 \<Rightarrow> i3705" where
  "sig_RTS_remote k s =
    (if RS232 s k AND RTS \<noteq> 0 \<and> \<not> (RS232 s k AND CTS \<noteq> 0)
     then s\<lparr>RS232r := (RS232r s)(k := RS232r s k OR RTS), RS232x := (RS232x s)(k := 1)\<rparr>
     else s)"

definition sig_DSR_off :: "nat \<Rightarrow> i3705 \<Rightarrow> i3705" where
  "sig_DSR_off k s =
    (if \<not> (RS232 s k AND DTR \<noteq> 0) \<and> RS232 s k AND DSR \<noteq> 0
     then RS232_upd k (\<lambda>r. r AND NOT DSR) s else s)"

definition sig_RTS_off :: "nat \<Rightarrow> i3705 \<Rightarrow> i3705" where
  "sig_RTS_off k s =
    (if \<not> (RS232 s k AND DTR \<noteq> 0) \<and> RS232 s k AND RTS \<noteq> 0
     then (RS232_upd k (\<lambda>r. r AND NOT RTS) s)
            \<lparr>RS232r := (RS232r s)(k := RS232r s k AND NOT CTS), RS232x := (RS232x s)(k := 1)\<rparr>
     else s)"

text \<open>What a signal byte read from the remote side does (lines 285 to 291).\<close>

definition sig_received :: "u8 \<Rightarrow> nat \<Rightarrow> i3705 \<Rightarrow> i3705" where
  "sig_received sig k t1 =
    (let t2 = (if sig AND RTS \<noteq> 0 \<and> RS232 t1 k AND DTR \<noteq> 0 \<and> LIBrlen (LIBline t1 k) = 0
               then t1\<lparr>RS232r := (RS232r t1)(k := RS232r t1 k OR CTS),
                       RS232x := (RS232x t1)(k := 1)\<rparr>
               else t1)
     in if sig AND CTS \<noteq> 0 \<and> RS232 t2 k AND DTR \<noteq> 0 \<and> \<not> (RS232 t2 k AND CTS \<noteq> 0)
        then RS232_upd k (\<lambda>r. r OR CTS) t2 else t2)"

definition ReadSig :: "nat \<Rightarrow> i3705 \<Rightarrow> i3705" where
  "ReadSig k s0 =
    (let s1 = s0\<lparr>RS232x := (RS232x s0)(k := 0)\<rparr>;
         s2 = sig_DSR_on k s1;
         s3 = sig_RTS_remote k s2;
         s4 = sig_DSR_off k s3;
         s5 = sig_RTS_off k s4
     in if s327x_fd (LIBline s5 k) > 0 then
          (if IsSocketConnected (s327x_fd (LIBline s5 k)) (s_peer (net s5 k)) then
             (let pending = s_pending (net s5 k);
                  s6 = (if length pending > 0 then
                          (if length pending > 1 then
                             sig_received (last pending) k
                               (net_upd k (\<lambda>n. n\<lparr>s_pending := []\<rparr>) s5)
                           else s5)
                        else s5)
              in if RS232x s6 k = 1
                 then net_upd k (\<lambda>n. n\<lparr>s_sent := s_sent n @ [RS232r s6 k]\<rparr>) s6
                 else s6)
           else
             (let t1 = line_upd k (\<lambda>l. l\<lparr>d327x_fd := 0\<rparr>) s5;
                  t2 = line_upd k (\<lambda>l. l\<lparr>s327x_fd := 0\<rparr>) t1
              in RS232_upd k (\<lambda>r. r AND NOT (DCD OR DSR OR RI)) t2))
        else s5)"

text \<open>
  What the four rules together do to the local signal byte of the line.
\<close>

definition sig_rules :: "u8 \<Rightarrow> u8" where
  "sig_rules r0 =
    (let r1 = (if r0 AND DTR \<noteq> 0 \<and> \<not> (r0 AND DSR \<noteq> 0) then r0 OR DSR else r0);
         r2 = (if \<not> (r1 AND DTR \<noteq> 0) \<and> r1 AND DSR \<noteq> 0 then r1 AND NOT DSR else r1)
     in if \<not> (r2 AND DTR \<noteq> 0) \<and> r2 AND RTS \<noteq> 0 then r2 AND NOT RTS else r2)"

text \<open>
  \<^verbatim>\<open>ReadLIB\<close>: returns the return code and the state. \<^verbatim>\<open>read\<close> delivers the waiting
  bytes, at most \<open>BUFLEN_327x\<close> of them, into \<open>LIB_rbuf\<close>.
\<close>

definition ReadLIB :: "nat \<Rightarrow> i3705 \<Rightarrow> int \<times> i3705" where
  "ReadLIB k s0 =
    (let s1 = line_upd k (\<lambda>l. l\<lparr>LIBrlen := 0\<rparr>) s0;
         rc = - 1
     in if d327x_fd (LIBline s1 k) > 0 then
          (if IsSocketConnected (d327x_fd (LIBline s1 k)) (d_peer (net s1 k)) then
             (let pending = d_pending (net s1 k)
              in if length pending > 0 then
                   (let n = min (length pending) BUFLEN_327x;
                        t1 = line_upd k
                               (\<lambda>l. l\<lparr>LIB_rbuf := memcpy (LIB_rbuf l) 0 (arr (take n pending)) 0 n,
                                      LIBrlen := of_nat n\<rparr>) s1;
                        t2 = net_upd k (\<lambda>n'. n'\<lparr>d_pending := drop n pending\<rparr>) t1
                    in (0, t2))
                 else (0, s1))
           else
             (let t1 = line_upd k (\<lambda>l. l\<lparr>d327x_fd := 0\<rparr>) s1;
                  t2 = RS232_upd k (\<lambda>r. r AND NOT (DCD OR DSR OR RI)) t1
              in (- 1, t2)))
        else (rc, s1))"

text \<open>\<^verbatim>\<open>proc_LIBtdata\<close>: a character from the scanner, with the scanner's PCF state.\<close>

definition proc_LIBtdata :: "u8 \<Rightarrow> u8 \<Rightarrow> nat \<Rightarrow> i3705 \<Rightarrow> i3705" where
  "proc_LIBtdata LIBtchar st line s0 =
    (let s1 = (if LIBsync (LIBline s0 line) = 1 \<and> (st = 0xC \<or> st = 0xD) then
                 (let t1 = line_upd line (\<lambda>l. l\<lparr>LIBsync := 0\<rparr>) s0;
                      t2 = net_upd line
                             (\<lambda>n. n\<lparr>d_sent := d_sent n
                                      @ [slice (LIB_tbuf (LIBline t1 line)) 0
                                           (unat (LIBtlen (LIBline t1 line)))]\<rparr>) t1
                  in line_upd line (\<lambda>l. l\<lparr>LIBtlen := 0\<rparr>) t2)
               else s0);
         s2 = (if LIBsync (LIBline s1 line) = 1 \<and> st \<noteq> 0x8 then
                 line_upd line
                   (\<lambda>l. l\<lparr>LIB_tbuf := (LIB_tbuf l)(unat (LIBtlen l) := LIBtchar),
                          LIBtlen := LIBtlen l + 1\<rparr>) s1
               else s1);
         s3 = (if st = 0x8 \<and> LIBsync (LIBline s2 line) \<noteq> 1 then
                 line_upd line (\<lambda>l. l\<lparr>LIBsync := 1, LIBtlen := 0\<rparr>) s2
               else s2)
     in s3\<lparr>prev_state := st\<rparr>)"

text \<open>
  \<^verbatim>\<open>proc_LIBrdata\<close>: takes the old value of \<^verbatim>\<open>*LIBrchar\<close> and returns the return
  code, the new value of \<^verbatim>\<open>*LIBrchar\<close> and the state.
\<close>

definition proc_LIBrdata :: "u8 \<Rightarrow> u8 \<Rightarrow> nat \<Rightarrow> i3705 \<Rightarrow> int \<times> u8 \<times> i3705" where
  "proc_LIBrdata LIBrchar st line s0 =
    (let s1 = (if LIBrlen (LIBline s0 line) = 0 then snd (ReadLIB line s0) else s0)
     in if LIBrlen (LIBline s1 line) > 0 then
          (let c = LIB_rbuf (LIBline s1 line) 0;
               s2 = (if \<not> (st = 0x4 \<or> st = 0x5) then
                       (let (b, n) = ShiftLeft (LIB_rbuf (LIBline s1 line))
                                       (uint (LIBrlen (LIBline s1 line)))
                        in line_upd line (\<lambda>l. l\<lparr>LIB_rbuf := b, LIBrlen := word_of_int n\<rparr>) s1)
                     else s1);
               rc = (if LIBrlen (LIBline s2 line) = 0 then 2 else 1)
           in (rc, c, s2))
        else (0, LIBrchar, s1))"

text \<open>
  \<^verbatim>\<open>LIB_thread\<close>, the two start-up loops over the lines (lines 461 to 467 and 479 to
  480): the buffer lengths and \<open>LIBsync\<close> are cleared and every RS-232 byte is set to
  zero. \<open>MAX_LINES\<close> comes from a header that is not among the sources and is a
  parameter. The descriptors \<open>d327x_fd\<close> and \<open>s327x_fd\<close> are not assigned here.
\<close>

definition LIB_thread_init :: "nat \<Rightarrow> i3705 \<Rightarrow> i3705" where
  "LIB_thread_init MAX_LINES s0 =
    (let s1 = fold (\<lambda>j. line_upd j (\<lambda>l. l\<lparr>linenum := int j, LIBrlen := 0, LIBtlen := 0,
                                          LIBsync := 0\<rparr>)) [0 ..< MAX_LINES] s0
     in fold (\<lambda>j. RS232_upd j (\<lambda>r. 0x00)) [0 ..< MAX_LINES] s1)"

text \<open>The bytes waiting in the receive buffer of a line.\<close>

definition rbuf_bytes :: "i3705 \<Rightarrow> nat \<Rightarrow> u8 list" where
  "rbuf_bytes s k = slice (LIB_rbuf (LIBline s k)) 0 (unat (LIBrlen (LIBline s k)))"


section \<open>Communication scanner type 2 (i3705\_scan\_T2.c)\<close>

text \<open>
  One pass of the loop body of \<^verbatim>\<open>CS2_thread\<close> for one line, up to the end of the
  \<^verbatim>\<open>switch\<close> (lines 228 to 660, the part under \<open>icw_lock\<close>). The post-processing that
  follows waits for the CPU thread to clear \<open>svc_req_L2\<close> and is not part of the model.
  Each case of the \<^verbatim>\<open>switch (icw_pcf[line])\<close> is one definition.
\<close>

text \<open>Lines 229 to 237: a PCF written by the NCP is adopted.\<close>

definition CS2_adopt :: "nat \<Rightarrow> i3705 \<Rightarrow> i3705" where
  "CS2_adopt line s =
    (if icw_pcf s line \<noteq> icw_pcf_nxt s line then
       (let s1 = (if icw_pcf_nxt s line = 0x0
                  then s\<lparr>icw_lne_stat := (icw_lne_stat s)(line := RESET)\<rparr> else s);
            s2 = s1\<lparr>icw_pcf_prev := (icw_pcf_prev s1)(line := icw_pcf s1 line)\<rparr>
        in s2\<lparr>icw_pcf := (icw_pcf s2)(line := icw_pcf_nxt s2 line)\<rparr>)
     else s)"

text \<open>
  The call \<^verbatim>\<open>ret = proc_LIBrdata(&receivedChar[line], icw_pcf[line], line)\<close>: returns
  \<^verbatim>\<open>ret\<close> and the state with \<open>receivedChar[line]\<close> written.
\<close>

definition read_char :: "nat \<Rightarrow> i3705 \<Rightarrow> int \<times> i3705" where
  "read_char line s =
    (let (ret, c, t) = proc_LIBrdata (receivedChar s line) (icw_pcf s line) line s
     in (ret, t\<lparr>receivedChar := (receivedChar t)(line := c)\<rparr>))"

text \<open>The L2 interrupt gate of the states 6 to A.\<close>

definition L2_active :: "i3705 \<Rightarrow> bool" where
  "L2_active s = (svc_req_L2 s = ON \<or> lvl s = 2)"

definition pcf_0 :: "nat \<Rightarrow> i3705 \<Rightarrow> i3705" where
  "pcf_0 line s = s"

definition pcf_1 :: "nat \<Rightarrow> i3705 \<Rightarrow> i3705" where
  "pcf_1 line s =
    (let s1 = s\<lparr>icw_scf := (icw_scf s)(line := icw_scf s line AND 0x4A)\<rparr>;
         s2 = s1\<lparr>icw_sdf := (icw_sdf s1)(line := icw_sdf s1 line OR 0x08)\<rparr>;
         s3 = RS232_upd line (\<lambda>r. r OR DTR) s2;
         s4 = s3\<lparr>icw_scf := (icw_scf s3)(line := icw_scf s3 line OR 0x40)\<rparr>
     in s4\<lparr>icw_pcf_nxt := (icw_pcf_nxt s4)(line := 0x0), CS2_req_L2_int := ON\<rparr>)"

definition pcf_2 :: "nat \<Rightarrow> i3705 \<Rightarrow> i3705" where
  "pcf_2 line s =
    (if RS232 s line AND DCD \<noteq> 0 then
       (let s1 = s\<lparr>icw_scf := (icw_scf s)(line := icw_scf s line OR 0x08)\<rparr>
        in if RS232 s1 line AND DSR \<noteq> 0 then
             s1\<lparr>icw_scf := (icw_scf s1)(line := icw_scf s1 line OR 0x40),
                icw_pcf_nxt := (icw_pcf_nxt s1)(line := 0x4), CS2_req_L2_int := ON\<rparr>
           else
             s1\<lparr>icw_scf := (icw_scf s1)(line := icw_scf s1 line OR 0x40),
                icw_pcf_nxt := (icw_pcf_nxt s1)(line := 0x2), CS2_req_L2_int := ON\<rparr>)
     else
       s\<lparr>icw_pcf_nxt := (icw_pcf_nxt s)(line := 0x2),
         icw_scf := (icw_scf s)(line := icw_scf s line AND 0xF7)\<rparr>)"

definition pcf_3 :: "nat \<Rightarrow> i3705 \<Rightarrow> i3705" where
  "pcf_3 line s =
    (if icw_pcf_prev s line \<noteq> icw_pcf s line then
       s\<lparr>icw_scf := (icw_scf s)(line := icw_scf s line OR 0x40),
         icw_pcf_nxt := (icw_pcf_nxt s)(line := 0x0), CS2_req_L2_int := ON\<rparr>
     else s)"

text \<open>States 4 and 5 share one body. The first component of the BSC part says that it left by \<^verbatim>\<open>break\<close>.\<close>

definition pcf_4_5 :: "nat \<Rightarrow> i3705 \<Rightarrow> i3705" where
  "pcf_4_5 line s =
    (if \<not> (RS232 s line AND DSR \<noteq> 0) then
       s\<lparr>icw_scf := (icw_scf s)(line := icw_scf s line OR 0x40),
         icw_pcf_nxt := (icw_pcf_nxt s)(line := 0x2), CS2_req_L2_int := ON\<rparr>
     else if icw_lne_stat s line = TX then s
     else
       (let (brk, s1) =
              (if icw_lcd s line = 0xC then
                 (let (ret, t) = read_char line s
                  in if ret \<noteq> 1 then (True, t)
                     else if receivedChar t line = 0x32 then
                       (False,
                        t\<lparr>icw_pdf := (icw_pdf t)(line := receivedChar t line),
                          icw_pcf_nxt := (icw_pcf_nxt t)(line := 0x7),
                          icw_sdf := (icw_sdf t)(line := icw_sdf t line OR 0x04)\<rparr>)
                     else (False, t))
               else (False, s))
        in if brk then s1
           else if icw_lcd s1 line = 0x8 \<or> icw_lcd s1 line = 0x9 then
             (let s2 = s1\<lparr>Eflg_rcvd := (Eflg_rcvd s1)(line := OFF)\<rparr>;
                  (ret, t) = read_char line s2
              in if ret = 0 then t
                 else if receivedChar t line = 0x7E then
                   t\<lparr>icw_scf := (icw_scf t)(line := icw_scf t line OR 0x04),
                     icw_lcd := (icw_lcd t)(line := 0x9),
                     icw_pcf_nxt := (icw_pcf_nxt t)(line := 0x6), CS2_req_L2_int := ON\<rparr>
                 else
                   (let t1 = proc_LIBdisbuf line t
                    in t1\<lparr>icw_pcf_nxt := (icw_pcf_nxt t1)(line := 0x5)\<rparr>))
           else s1))"

definition pcf_6 :: "nat \<Rightarrow> i3705 \<Rightarrow> i3705" where
  "pcf_6 line s =
    (if L2_active s then s
     else
       (let (ret, t) = read_char line s
        in if ret = 0 then t
           else if receivedChar t line = 0x7E then
             t\<lparr>icw_pcf_nxt := (icw_pcf_nxt t)(line := 0x6),
               icw_scf := (icw_scf t)(line := icw_scf t line OR 0x04)\<rparr>
           else
             (let t1 = t\<lparr>icw_scf := (icw_scf t)(line := icw_scf t line AND NOT 0x04)\<rparr>;
                  t2 = t1\<lparr>icw_pdf := (icw_pdf t1)(line := receivedChar t1 line),
                          icw_pdf_reg := (icw_pdf_reg t1)(line := FILLED)\<rparr>
              in t2\<lparr>icw_scf := (icw_scf t2)(line := icw_scf t2 line OR 0x40),
                    icw_pcf_nxt := (icw_pcf_nxt t2)(line := 0x7), CS2_req_L2_int := ON\<rparr>)))"

definition pcf_7 :: "nat \<Rightarrow> i3705 \<Rightarrow> i3705" where
  "pcf_7 line s =
    (if L2_active s then s
     else
       (let s1 = (if icw_lcd s line = 0xC then
                    (if icw_scf s line AND 0x40 = 0 then
                       (let (ret, t) = read_char line s;
                            t1 = (if ret \<noteq> 1
                                  then t\<lparr>receivedChar := (receivedChar t)(line := 0xFF)\<rparr> else t);
                            t2 = t1\<lparr>icw_pdf := (icw_pdf t1)(line := receivedChar t1 line)\<rparr>
                        in t2\<lparr>icw_scf := (icw_scf t2)(line := icw_scf t2 line OR 0x40),
                              icw_pcf_nxt := (icw_pcf_nxt t2)(line := 0x7),
                              CS2_req_L2_int := ON\<rparr>)
                     else s)
                  else s)
        in if icw_lcd s1 line = 0x8 \<or> icw_lcd s1 line = 0x9 then
             (let (ret, t) = read_char line s1
              in if ret = 0 then t
                 else
                   (let t1 = (if receivedChar t line = 0x7E \<and> FCS_rcvd t line 0 = 0x47
                                 \<and> FCS_rcvd t line 1 = 0x0F
                              then t\<lparr>Eflg_rcvd := (Eflg_rcvd t)(line := ON)\<rparr>
                              else
                                (let u1 = t\<lparr>FCS_rcvd := (FCS_rcvd t)
                                             (line := (FCS_rcvd t line)(0 := FCS_rcvd t line 1))\<rparr>;
                                     u2 = u1\<lparr>FCS_rcvd := (FCS_rcvd u1)
                                             (line := (FCS_rcvd u1 line)(1 := receivedChar u1 line))\<rparr>
                                 in u2\<lparr>Eflg_rcvd := (Eflg_rcvd u2)(line := OFF)\<rparr>))
                    in if Eflg_rcvd t1 line = ON then
                         t1\<lparr>icw_lne_stat := (icw_lne_stat t1)(line := TX),
                            icw_scf := (icw_scf t1)(line := icw_scf t1 line OR 0x44),
                            icw_lcd := (icw_lcd t1)(line := 0x9),
                            icw_pcf_nxt := (icw_pcf_nxt t1)(line := 0x6),
                            CS2_req_L2_int := ON,
                            Eflg_rcvd := (Eflg_rcvd t1)(line := OFF),
                            FCS_rcvd := (FCS_rcvd t1)(line := (FCS_rcvd t1 line)(0 := 0x00, 1 := 0x00))\<rparr>
                       else
                         t1\<lparr>icw_pdf := (icw_pdf t1)(line := receivedChar t1 line),
                            icw_pdf_reg := (icw_pdf_reg t1)(line := FILLED),
                            icw_scf := (icw_scf t1)(line := icw_scf t1 line OR 0x40),
                            icw_pcf_nxt := (icw_pcf_nxt t1)(line := 0x7),
                            CS2_req_L2_int := ON\<rparr>))
           else s1))"

definition pcf_8 :: "nat \<Rightarrow> i3705 \<Rightarrow> i3705" where
  "pcf_8 line s =
    (if L2_active s then s
     else if \<not> (RS232 s line AND CTS \<noteq> 0) then RS232_upd line (\<lambda>r. r OR RTS) s
     else
       (let s1 = (if icw_lcd s line = 0xC then
                    (let t1 = (if icw_scf s line AND 0x40 = 0
                               then s\<lparr>transmitChar := icw_pdf s line\<rparr> else s);
                         t2 = proc_LIBtdata (transmitChar t1) (icw_pcf t1 line) line t1
                     in t2\<lparr>icw_pdf_reg := (icw_pdf_reg t2)(line := EMPTY),
                           icw_scf := (icw_scf t2)(line := icw_scf t2 line OR 0x40),
                           icw_pcf_nxt := (icw_pcf_nxt t2)(line := 0x9),
                           CS2_req_L2_int := ON\<rparr>)
                  else s)
        in if icw_lcd s1 line = 0x9 then
             (let t1 = proc_LIBtdata (transmitChar s1) (icw_pcf s1 line) line s1
              in t1\<lparr>icw_scf := (icw_scf t1)(line := icw_scf t1 line AND 0xFB),
                    icw_pcf_nxt := (icw_pcf_nxt t1)(line := 0x9)\<rparr>)
           else s1))"

definition pcf_9 :: "nat \<Rightarrow> i3705 \<Rightarrow> i3705" where
  "pcf_9 line s =
    (if L2_active s then s
     else
       (let s1 = (if icw_lcd s line = 0xC then
                    (if icw_scf s line AND 0x40 = 0 then
                       (let t1 = s\<lparr>transmitChar := icw_pdf s line\<rparr>;
                            t2 = proc_LIBtdata (transmitChar t1) (icw_pcf t1 line) line t1
                        in t2\<lparr>icw_pdf_reg := (icw_pdf_reg t2)(line := EMPTY),
                              icw_scf := (icw_scf t2)(line := icw_scf t2 line OR 0x40),
                              icw_pcf_nxt := (icw_pcf_nxt t2)(line := 0x9),
                              CS2_req_L2_int := ON\<rparr>)
                     else s)
                  else s)
        in if icw_lcd s1 line = 0x9 then
             (if icw_pdf_reg s1 line = FILLED then
                (let t1 = s1\<lparr>transmitChar := icw_pdf s1 line\<rparr>;
                     t2 = proc_LIBtdata (transmitChar t1) (icw_pcf t1 line) line t1
                 in t2\<lparr>icw_pdf_reg := (icw_pdf_reg t2)(line := EMPTY),
                       icw_scf := (icw_scf t2)(line := icw_scf t2 line OR 0x40),
                       icw_pcf_nxt := (icw_pcf_nxt t2)(line := 0x9),
                       CS2_req_L2_int := ON\<rparr>)
              else s1)
           else s1))"

definition pcf_A :: "nat \<Rightarrow> i3705 \<Rightarrow> i3705" where
  "pcf_A line s =
    (if L2_active s then s
     else if icw_lcd s line = 0xC then
       (if icw_scf s line AND 0x40 = 0 then
          (let t1 = s\<lparr>transmitChar := icw_pdf s line\<rparr>;
               t2 = proc_LIBtdata (transmitChar t1) (icw_pcf t1 line) line t1
           in t2\<lparr>icw_pdf_reg := (icw_pdf_reg t2)(line := EMPTY),
                 icw_scf := (icw_scf t2)(line := icw_scf t2 line OR 0x40),
                 icw_pcf_nxt := (icw_pcf_nxt t2)(line := 0xA),
                 CS2_req_L2_int := ON\<rparr>)
        else s)
     else s)"

definition pcf_B :: "nat \<Rightarrow> i3705 \<Rightarrow> i3705" where
  "pcf_B line s = s"

definition pcf_C :: "nat \<Rightarrow> i3705 \<Rightarrow> i3705" where
  "pcf_C line s =
    (let s1 = (if icw_lcd s line = 0xC then
                 (if icw_pcf_prev s line \<noteq> icw_pcf s line then
                    (let t1 = s\<lparr>transmitChar := icw_pdf s line\<rparr>;
                         t2 = proc_LIBtdata (transmitChar t1) (icw_pcf t1 line) line t1
                     in t2\<lparr>icw_lne_stat := (icw_lne_stat t2)(line := RX),
                           icw_scf := (icw_scf t2)(line := icw_scf t2 line OR 0x40),
                           icw_pcf_nxt := (icw_pcf_nxt t2)(line := 0x5),
                           CS2_req_L2_int := ON\<rparr>)
                  else s)
               else s);
         s2 = (if icw_lcd s1 line = 0x9 then
                 (if icw_pcf_prev s1 line \<noteq> icw_pcf s1 line then
                    (let t1 = proc_LIBtdata (transmitChar s1) (icw_pcf s1 line) line s1
                     in t1\<lparr>icw_lne_stat := (icw_lne_stat t1)(line := RX),
                           icw_scf := (icw_scf t1)(line := icw_scf t1 line OR 0x40),
                           icw_pcf_nxt := (icw_pcf_nxt t1)(line := 0x5),
                           CS2_req_L2_int := ON\<rparr>)
                  else s1)
               else s1);
         s3 = RS232_upd line (\<lambda>r. r AND NOT RTS) s2
     in RS232_upd line (\<lambda>r. r AND NOT CTS) s3)"

text \<open>
  State D, lines 621 to 641: on a BSC line the next PCF is set to 5 and an L2 interrupt
  is requested; on an SDLC line nothing is done. \<^verbatim>\<open>proc_LIBtdata\<close> is not called.
\<close>

definition pcf_D :: "nat \<Rightarrow> i3705 \<Rightarrow> i3705" where
  "pcf_D line s =
    (let s1 = (if icw_lcd s line = 0xC
               then s\<lparr>icw_pcf_nxt := (icw_pcf_nxt s)(line := 0x5), CS2_req_L2_int := ON\<rparr>
               else s)
     in if icw_lcd s1 line = 0x9 then s1 else s1)"

definition pcf_E :: "nat \<Rightarrow> i3705 \<Rightarrow> i3705" where
  "pcf_E line s = s"

definition pcf_F :: "nat \<Rightarrow> i3705 \<Rightarrow> i3705" where
  "pcf_F line s =
    (let s1 = s\<lparr>icw_scf := (icw_scf s)(line := icw_scf s line OR 0x40),
               icw_sdf := (icw_sdf s)(line := icw_sdf s line AND NOT 0x08)\<rparr>;
         s2 = RS232_upd line (\<lambda>r. r AND NOT DTR) s1
     in s2\<lparr>icw_pcf_nxt := (icw_pcf_nxt s2)(line := 0x0), CS2_req_L2_int := ON\<rparr>)"

text \<open>The \<^verbatim>\<open>switch (icw_pcf[line])\<close>; a value above \<open>0xF\<close> matches no case.\<close>

definition CS2_dispatch :: "nat \<Rightarrow> i3705 \<Rightarrow> i3705" where
  "CS2_dispatch line s =
    (let pcf = icw_pcf s line
     in if pcf = 0x0 then pcf_0 line s
        else if pcf = 0x1 then pcf_1 line s
        else if pcf = 0x2 then pcf_2 line s
        else if pcf = 0x3 then pcf_3 line s
        else if pcf = 0x4 \<or> pcf = 0x5 then pcf_4_5 line s
        else if pcf = 0x6 then pcf_6 line s
        else if pcf = 0x7 then pcf_7 line s
        else if pcf = 0x8 then pcf_8 line s
        else if pcf = 0x9 then pcf_9 line s
        else if pcf = 0xA then pcf_A line s
        else if pcf = 0xB then pcf_B line s
        else if pcf = 0xC then pcf_C line s
        else if pcf = 0xD then pcf_D line s
        else if pcf = 0xE then pcf_E line s
        else if pcf = 0xF then pcf_F line s
        else s)"

definition CS2_scan :: "nat \<Rightarrow> i3705 \<Rightarrow> i3705" where
  "CS2_scan line s = CS2_dispatch line (CS2_adopt line s)"

text \<open>
  \<^verbatim>\<open>Init_ICW\<close> and the start of \<^verbatim>\<open>LIB_thread\<close> leave every line like this: PCF
  \<open>0xE\<close>, line state RESET, PDF register EMPTY, all else zero; no connection, nothing
  waiting, nothing sent.
\<close>

definition boot :: i3705 where
  "boot =
    \<lparr>LIBline = (\<lambda>_. \<lparr>line_fd = 0, linenum = 0, d327x_fd = 0, s327x_fd = 0, epoll_fd = 0,
                       LIB_rbuf = (\<lambda>_. 0), LIB_tbuf = (\<lambda>_. 0), LIBrlen = 0, LIBtlen = 0,
                       LIBsync = 0\<rparr>),
     net = (\<lambda>_. \<lparr>d_peer = False, d_pending = [], d_sent = [], s_peer = False,
                   s_pending = [], s_sent = []\<rparr>),
     RS232 = (\<lambda>_. 0), RS232r = (\<lambda>_. 0), RS232x = (\<lambda>_. 0), prev_state = 0,
     icw_scf = (\<lambda>_. 0), icw_pdf = (\<lambda>_. 0), icw_lcd = (\<lambda>_. 0), icw_pcf = (\<lambda>_. 0xE),
     icw_sdf = (\<lambda>_. 0), icw_pcf_prev = (\<lambda>_. 0x0), icw_lne_stat = (\<lambda>_. RESET),
     icw_pcf_nxt = (\<lambda>_. 0x0), icw_pdf_reg = (\<lambda>_. EMPTY), Eflg_rcvd = (\<lambda>_. 0),
     FCS_rcvd = (\<lambda>_ _. 0), CS2_req_L2_int = OFF, svc_req_L2 = OFF, lvl = 0,
     receivedChar = (\<lambda>_. 0), transmitChar = 0\<rparr>"

text \<open>
  Example states. \<open>sending\<close>: line 0 is an SDLC line (LCD 9) in PCF 9 that has put the
  three bytes \<open>C1 11 47\<close> into the transmit buffer (\<open>LIBsync\<close> set) after receiving a
  frame (line state TX), with both connections up. \<open>to_C\<close> and \<open>to_D\<close>: the NCP has then
  written PCF C, resp. PCF D, as the next state. \<open>bsc_D\<close>: line 0 is a BSC line (LCD C)
  in PCF D while a level 2 service request is outstanding.
\<close>

definition sending :: i3705 where
  "sending =
    (line_upd 0 (\<lambda>l. l\<lparr>d327x_fd := 5, s327x_fd := 6, LIBsync := 1, LIBtlen := 3,
                        LIB_tbuf := arr [0xC1, 0x11, 0x47]\<rparr>)
      (net_upd 0 (\<lambda>n. n\<lparr>d_peer := True, s_peer := True\<rparr>) boot))
     \<lparr>icw_lcd := (\<lambda>_. 0x9), icw_pcf := (\<lambda>_. 0x9), icw_pcf_prev := (\<lambda>_. 0x9),
      icw_pcf_nxt := (\<lambda>_. 0x9), icw_lne_stat := (\<lambda>_. TX),
      RS232 := (\<lambda>_. CTS OR RI OR DSR OR DCD OR RTS OR DTR)\<rparr>"

definition to_C :: i3705 where
  "to_C = sending\<lparr>icw_pcf_nxt := (icw_pcf_nxt sending)(0 := 0xC)\<rparr>"

definition to_D :: i3705 where
  "to_D = sending\<lparr>icw_pcf_nxt := (icw_pcf_nxt sending)(0 := 0xD)\<rparr>"

definition bsc_D :: i3705 where
  "bsc_D = boot\<lparr>icw_lcd := (\<lambda>_. 0xC), icw_pcf := (\<lambda>_. 0xD), icw_pcf_prev := (\<lambda>_. 0xD),
                 icw_pcf_nxt := (\<lambda>_. 0xD), svc_req_L2 := ON\<rparr>"

text \<open>
  \<open>receiving\<close>: line 0 holds the two received bytes \<open>7E C1\<close>. \<open>lost_data\<close>: line 0 is
  connected with DTR raised by the NCP (signals DCD, RI, DSR and DTR high), and the peer
  of the data connection has gone. \<open>lost_signal\<close>: the same, with the peer of the signal
  connection gone.
\<close>

definition receiving :: i3705 where
  "receiving = line_upd 0 (\<lambda>l. l\<lparr>d327x_fd := 5, s327x_fd := 6,
                                   LIB_rbuf := arr [0x7E, 0xC1], LIBrlen := 2\<rparr>) boot"

definition lost_data :: i3705 where
  "lost_data =
    (line_upd 0 (\<lambda>l. l\<lparr>d327x_fd := 5, s327x_fd := 6\<rparr>)
      (net_upd 0 (\<lambda>n. n\<lparr>d_peer := False, s_peer := True\<rparr>) boot))
     \<lparr>RS232 := (\<lambda>_. DCD OR RI OR DSR OR DTR)\<rparr>"

definition lost_signal :: i3705 where
  "lost_signal =
    (line_upd 0 (\<lambda>l. l\<lparr>d327x_fd := 5, s327x_fd := 6\<rparr>)
      (net_upd 0 (\<lambda>n. n\<lparr>d_peer := True, s_peer := False\<rparr>) boot))
     \<lparr>RS232 := (\<lambda>_. DCD OR RI OR DSR OR DTR)\<rparr>"

section \<open>Arrays: basic facts\<close>

lemma memcpy_apply:
  "memcpy dst d src s n i = (if d \<le> i \<and> i < d + n then src (s + (i - d)) else dst i)"
  by (simp add: memcpy_def)

lemma slice_conv: "slice a off n = map (\<lambda>i. a (off + i)) [0..<n]"
  by (simp add: slice_def map_add_upt[symmetric] add.commute)

lemma slice_nth: "i < n \<Longrightarrow> slice a off n ! i = a (off + i)"
  by (simp add: slice_def)

lemma length_slice [simp]: "length (slice a off n) = n"
  by (simp add: slice_def)

lemma upt_18: "[0..<18] = [0,1,2,3,4,5,6,7,8,9,10,11,12,13,14,15,16,17::nat]"
  by code_simp

lemma upt_10: "[0..<10] = [0,1,2,3,4,5,6,7,8,9::nat]"
  by code_simp

lemma slice_18:
  "slice a off 18 = [a off, a (off + 1), a (off + 2), a (off + 3), a (off + 4), a (off + 5),
     a (off + 6), a (off + 7), a (off + 8), a (off + 9), a (off + 10), a (off + 11), a (off + 12),
     a (off + 13), a (off + 14), a (off + 15), a (off + 16), a (off + 17)]"
  by (simp add: slice_conv upt_18)

lemma slice_10:
  "slice a off 10 = [a off, a (off + 1), a (off + 2), a (off + 3), a (off + 4), a (off + 5),
     a (off + 6), a (off + 7), a (off + 8), a (off + 9)]"
  by (simp add: slice_conv upt_10)

section \<open>DLSw router: properties\<close>

subsection \<open>Basic facts\<close>

lemmas case_defs = case_CANUREACH_def case_REACH_ACK_def case_XIDFRAME_def case_CONTACT_def
  case_CONTACTED_def case_ICANREACH_def case_INFOFRAME_def case_HALT_DL_def case_RESTART_DL_def
  case_CAP_EXCHANGE_def

lemma length_tables [simp]:
  "length INFOFRAME_Hdr = 16" "length CONTROL_MSG_Hdr = 72" "length CAP_EXCHANGE_Rsp = 4"
  "length XIDFRAME_Rsp = 20" "length SDLC_FCSLT = 3" "length CAP_EXCHANGE_Msg = 38"
  by (simp_all add: INFOFRAME_Hdr_def CONTROL_MSG_Hdr_def CAP_EXCHANGE_Rsp_def XIDFRAME_Rsp_def
      SDLC_FCSLT_def CAP_EXCHANGE_Msg_def)

lemma paced_simps [simp]:
  "flow_control (paced w) = 1" "rp_granted_units (paced w) = w" "fc_current_window (paced w) = w"
  "fc_init_window_size (paced w) = w" "fca_owed (paced w) = 0" "ifcm_sent (paced w) = 0"
  by (simp_all add: paced_def dlsw_init_def ifcm_sent_def)

lemma ctl_msg_simps [simp]:
  "ctl_msg h t f HDR_MTYP = t" "ctl_msg h t f HDR_FCB = f" "ctl_msg h t f HDR_HLEN = h"
  by (simp_all add: ctl_msg_def arr_def)

lemma is_cap_request_capex: "is_cap_request capex_request"
  by (simp add: is_cap_request_def capex_request_def arr_def CONTROL_MSG_Hdr_def CAP_EXCHANGE_Msg_def)

lemma capex_request_window:
  "push_bit 8 (uint (capex_request (unat (capex_request HDR_HLEN) + CAP_IPW_OFF + 2)))
     + uint (capex_request (unat (capex_request HDR_HLEN) + CAP_IPW_OFF + 3)) = 20"
  by (simp add: capex_request_def arr_def CONTROL_MSG_Hdr_def CAP_EXCHANGE_Msg_def)

lemma ifcm_sent_cong: "dlsw_wfd_sent a = dlsw_wfd_sent b \<Longrightarrow> ifcm_sent a = ifcm_sent b"
  by (simp add: ifcm_sent_def)

lemma is_IFCM_RPT_slice:
  "w HDR_MTYP = IFCM \<Longrightarrow> w HDR_FCB = 0x80 \<Longrightarrow> is_IFCM_RPT (slice w 0 16)"
  by (simp add: is_IFCM_RPT_def slice_def)

lemma main_recv_sent:
  "dlsw_wfd_sent (main_recv m s) =
     (if fst (proc_DLSw m s) \<noteq> 0
      then dlsw_wfd_sent (snd (proc_DLSw m s))
             @ [slice (DLSw_wbuf (snd (proc_DLSw m s))) 0 (nat (fst (proc_DLSw m s)))]
      else dlsw_wfd_sent (snd (proc_DLSw m s)))"
  by (simp add: main_recv_def split: prod.split)

lemma main_recv_other:
  "rs232_fd_sent (main_recv m s) = rs232_fd_sent (snd (proc_DLSw m s))"
  "state (main_recv m s) = state (snd (proc_DLSw m s))"
  "DLSw_wbuf (main_recv m s) = DLSw_wbuf (snd (proc_DLSw m s))"
  by (simp_all add: main_recv_def split: prod.split)

subsection \<open>The flow control step\<close>

lemma flow_ctl_windows:
  "fc_current_window (snd (flow_ctl m s)) = fc_current_window s"
  "fc_init_window_size (snd (flow_ctl m s)) = fc_init_window_size s"
  "flow_control (snd (flow_ctl m s)) = flow_control s"
  "seq_Ns (snd (flow_ctl m s)) = seq_Ns s"
  "state (snd (flow_ctl m s)) = state s"
  "rs232_fd_sent (snd (flow_ctl m s)) = rs232_fd_sent s"
  by (simp_all add: flow_ctl_def Let_def)

text \<open>
  One received message with flow control on: the counter goes down by one, and up by the
  current window for the IFCM that is sent, if one is.
\<close>

lemma flow_ctl_balance:
  assumes "flow_control s \<noteq> 0"
  shows "rp_granted_units (snd (flow_ctl m s))
           - int (ifcm_sent (snd (flow_ctl m s))) * fc_current_window s
         = rp_granted_units s - int (ifcm_sent s) * fc_current_window s - 1"
  using assms
  by (simp add: flow_ctl_def Let_def ifcm_sent_def is_IFCM_RPT_slice memcpy_apply algebra_simps)

lemma flow_ctl_owed:
  assumes "flow_control s \<noteq> 0" "fca_owed s \<noteq> 0" "m HDR_FCB AND FCB_FCA = 0"
  shows "dlsw_wfd_sent (snd (flow_ctl m s)) = dlsw_wfd_sent s"
    and "fca_owed (snd (flow_ctl m s)) = fca_owed s"
  using assms by (simp_all add: flow_ctl_def Let_def)

lemma flow_ctl_grant:
  assumes "flow_control s \<noteq> 0" "fca_owed s = 0" "rp_granted_units s - 1 \<le> fc_current_window s"
  shows "ifcm_sent (snd (flow_ctl m s)) = ifcm_sent s + 1"
    and "fca_owed (snd (flow_ctl m s)) = 1"
  using assms
  by (simp_all add: flow_ctl_def Let_def ifcm_sent_def is_IFCM_RPT_slice memcpy_apply)

text \<open>
  Apart from a capabilities request, no case of the switch touches the pacing counters
  or sends on the DLSw socket.
\<close>

lemma proc_DLSw_pacing:
  assumes "\<not> is_cap_request m"
  shows "rp_granted_units (snd (proc_DLSw m s)) = rp_granted_units (snd (flow_ctl m s))"
    and "fc_current_window (snd (proc_DLSw m s)) = fc_current_window (snd (flow_ctl m s))"
    and "fc_init_window_size (snd (proc_DLSw m s)) = fc_init_window_size (snd (flow_ctl m s))"
    and "dlsw_wfd_sent (snd (proc_DLSw m s)) = dlsw_wfd_sent (snd (flow_ctl m s))"
    and "fca_owed (snd (proc_DLSw m s)) = fca_owed (snd (flow_ctl m s))"
  using assms
  by (simp_all add: proc_DLSw_def is_cap_request_def case_defs Let_def split: prod.split)

lemma proc_DLSw_cap_request:
  assumes "is_cap_request m"
  shows "rp_granted_units (snd (proc_DLSw m s))
           = push_bit 8 (uint (m (unat (m HDR_HLEN) + CAP_IPW_OFF + 2)))
               + uint (m (unat (m HDR_HLEN) + CAP_IPW_OFF + 3))"
    and "dlsw_wfd_sent (snd (proc_DLSw m s)) = dlsw_wfd_sent (snd (flow_ctl m s))"
  using assms
  by (simp_all add: proc_DLSw_def is_cap_request_def case_CAP_EXCHANGE_def Let_def split: prod.split)

lemma proc_DLSw_flow_control:
  "flow_control s \<noteq> 0 \<Longrightarrow> flow_control (snd (proc_DLSw m s)) \<noteq> 0"
  using flow_ctl_windows(3)[of m s]
  by (auto simp add: proc_DLSw_def case_defs Let_def split: prod.split)

lemma proc_DLSw_balance:
  assumes "flow_control s \<noteq> 0" "\<not> is_cap_request m"
  shows "rp_granted_units (snd (proc_DLSw m s))
           - int (ifcm_sent (snd (proc_DLSw m s))) * fc_current_window s
         = rp_granted_units s - int (ifcm_sent s) * fc_current_window s - 1"
  using flow_ctl_balance[OF assms(1), of m] proc_DLSw_pacing(1,4)[OF assms(2), of s]
  by (simp add: ifcm_sent_def)

lemma proc_DLSw_seq_balance:
  assumes "flow_control s \<noteq> 0" "\<forall>m \<in> set ms. \<not> is_cap_request m"
  shows "flow_control (proc_DLSw_seq ms s) \<noteq> 0
       \<and> fc_current_window (proc_DLSw_seq ms s) = fc_current_window s
       \<and> fc_init_window_size (proc_DLSw_seq ms s) = fc_init_window_size s
       \<and> rp_granted_units (proc_DLSw_seq ms s)
           - int (ifcm_sent (proc_DLSw_seq ms s)) * fc_current_window s
         = rp_granted_units s - int (ifcm_sent s) * fc_current_window s - int (length ms)"
  using assms
proof (induction ms arbitrary: s)
  case Nil
  then show ?case by simp
next
  case (Cons m ms)
  let ?t = "snd (proc_DLSw m s)"
  have nc: "\<not> is_cap_request m" using Cons.prems(2) by simp
  have fc: "flow_control ?t \<noteq> 0" by (rule proc_DLSw_flow_control[OF Cons.prems(1)])
  have cw: "fc_current_window ?t = fc_current_window s"
    by (simp add: proc_DLSw_pacing(2)[OF nc] flow_ctl_windows)
  have iw: "fc_init_window_size ?t = fc_init_window_size s"
    by (simp add: proc_DLSw_pacing(3)[OF nc] flow_ctl_windows)
  have rest: "\<forall>m \<in> set ms. \<not> is_cap_request m" using Cons.prems(2) by simp
  from Cons.IH[OF fc rest] proc_DLSw_balance[OF Cons.prems(1) nc] cw iw
  show ?case by simp
qed

subsection \<open>C1: the pacing counter\<close>

text \<open>
  C1, as the code has it. Flow control is on and the counters are as a capabilities
  exchange leaves them (\<open>rp_granted_units = fc_current_window = fc_init_window_size\<close>).
  After \<open>N\<close> received messages, none of them a capabilities request (type \<open>0x20\<close> with
  GDS id \<open>0x1520\<close>, which sets the counters afresh), \<open>rp_granted_units\<close> equals the
  initial window plus \<open>k\<close> times the current window minus \<open>N\<close>, where \<open>k\<close> is the number
  of IFCM repeat messages that \<^verbatim>\<open>proc_DLSw\<close> has sent on the DLSw socket in that time;
  the two windows stay as they were.
\<close>

theorem pacing_balance:
  assumes "flow_control s \<noteq> 0"
    and "rp_granted_units s = fc_current_window s"
    and "fc_current_window s = fc_init_window_size s"
    and "\<forall>m \<in> set ms. \<not> is_cap_request m"
  shows "rp_granted_units (proc_DLSw_seq ms s)
           = fc_init_window_size s
             + (int (ifcm_sent (proc_DLSw_seq ms s)) - int (ifcm_sent s)) * fc_current_window s
             - int (length ms)
         \<and> fc_current_window (proc_DLSw_seq ms s) = fc_current_window s
         \<and> fc_init_window_size (proc_DLSw_seq ms s) = fc_init_window_size s"
  using proc_DLSw_seq_balance[OF assms(1,4)] assms(2,3)
  by (simp add: algebra_simps)

theorem pacing_balance_witness:
  "flow_control (paced 20) \<noteq> 0
   \<and> rp_granted_units (paced 20) = fc_current_window (paced 20)
   \<and> fc_current_window (paced 20) = fc_init_window_size (paced 20)
   \<and> \<not> is_cap_request (ctl_msg 16 INFOFRAME 0)
   \<and> rp_granted_units (proc_DLSw_seq [ctl_msg 16 INFOFRAME 0, ctl_msg 16 INFOFRAME 0] (paced 20))
       = 20 + int (ifcm_sent (proc_DLSw_seq [ctl_msg 16 INFOFRAME 0, ctl_msg 16 INFOFRAME 0] (paced 20))) * 20 - 2"
  using pacing_balance[of "paced 20" "[ctl_msg 16 INFOFRAME 0, ctl_msg 16 INFOFRAME 0]"]
  by (simp add: is_cap_request_def)

text \<open>
  The claim as stated, for every run of messages, fails when the run holds a
  capabilities request: with all counters at 20, the request that \<^verbatim>\<open>main\<close> itself
  sends to a peer (window 20) first costs one unit, triggers one IFCM (19 is not above
  20), and then sets the counter back to 20, where the formula gives 20 + 20 - 1.
\<close>

theorem pacing_balance_counterexample:
  "flow_control (paced 20) \<noteq> 0
   \<and> rp_granted_units (paced 20) = fc_current_window (paced 20)
   \<and> fc_current_window (paced 20) = fc_init_window_size (paced 20)
   \<and> ifcm_sent (proc_DLSw_seq [capex_request] (paced 20)) = 1
   \<and> rp_granted_units (proc_DLSw_seq [capex_request] (paced 20)) = 20
   \<and> rp_granted_units (proc_DLSw_seq [capex_request] (paced 20))
       \<noteq> fc_init_window_size (paced 20)
           + (int (ifcm_sent (proc_DLSw_seq [capex_request] (paced 20))) - int (ifcm_sent (paced 20)))
             * fc_current_window (paced 20)
           - int (length [capex_request])"
proof -
  have k: "ifcm_sent (snd (proc_DLSw capex_request (paced 20))) = 1"
    using flow_ctl_grant(1)[of "paced 20" capex_request]
      ifcm_sent_cong[OF proc_DLSw_cap_request(2)[OF is_cap_request_capex, of "paced 20"]]
    by simp
  have r: "rp_granted_units (snd (proc_DLSw capex_request (paced 20))) = 20"
    by (simp only: proc_DLSw_cap_request(1)[OF is_cap_request_capex] capex_request_window)
  show ?thesis by (simp add: k r)
qed

subsection \<open>C2: when the IFCM is sent\<close>

lemma is_IFCM_RPT_slice_iff:
  "is_IFCM_RPT (slice w 0 n) = (n = 16 \<and> w HDR_MTYP = IFCM \<and> w HDR_FCB = 0x80)"
  by (auto simp add: is_IFCM_RPT_def slice_nth)

lemma flow_ctl_owed_len:
  assumes "flow_control s \<noteq> 0" "fca_owed s \<noteq> 0" "m HDR_FCB AND FCB_FCA = 0"
  shows "fst (flow_ctl m s) = 0"
  using assms by (simp add: flow_ctl_def Let_def)

text \<open>With nothing left over from the flow control step, what main sends is a reply.\<close>

lemma reply_not_IFCM:
  assumes "\<not> is_cap_request m" and "fst (flow_ctl m s) = 0" and "fst (proc_DLSw m s) \<noteq> 0"
  shows "\<not> is_IFCM_RPT (slice (DLSw_wbuf (snd (proc_DLSw m s))) 0 (nat (fst (proc_DLSw m s))))"
  using assms
  by (auto simp add: is_IFCM_RPT_slice_iff proc_DLSw_def is_cap_request_def case_defs Let_def
      memcpy_apply split: prod.splits if_splits)

lemma main_recv_pacing:
  "flow_control (main_recv m s) = flow_control (snd (proc_DLSw m s))"
  "fca_owed (main_recv m s) = fca_owed (snd (proc_DLSw m s))"
  by (simp_all add: main_recv_def split: prod.split)

lemma main_recv_ifcm_ge: "ifcm_sent (snd (proc_DLSw m s)) \<le> ifcm_sent (main_recv m s)"
  by (simp add: ifcm_sent_def main_recv_sent)

lemma main_recv_owed:
  assumes "flow_control s \<noteq> 0" "fca_owed s \<noteq> 0"
    and "\<not> is_cap_request m" "m HDR_FCB AND FCB_FCA = 0"
  shows "ifcm_sent (main_recv m s) = ifcm_sent s"
proof -
  have z: "fst (flow_ctl m s) = 0" using flow_ctl_owed_len[of s m] assms(1,2,4) by simp
  have sent: "dlsw_wfd_sent (snd (proc_DLSw m s)) = dlsw_wfd_sent s"
    using flow_ctl_owed(1)[of s m] assms(1,2,4) by (simp add: proc_DLSw_pacing(4)[OF assms(3)])
  show ?thesis
  proof (cases "fst (proc_DLSw m s) = 0")
    case True
    then show ?thesis by (simp add: ifcm_sent_def main_recv_sent sent)
  next
    case False
    from reply_not_IFCM[OF assms(3) z False] False show ?thesis
      by (simp add: ifcm_sent_def main_recv_sent sent)
  qed
qed

lemma main_marks_owed:
  assumes "flow_control s \<noteq> 0" "fca_owed s \<noteq> 0"
    and "\<forall>m \<in> set ms. \<not> is_cap_request m \<and> m HDR_FCB AND FCB_FCA = 0"
  shows "main_marks ms s = replicate (length ms) 0"
  using assms
proof (induction ms arbitrary: s)
  case Nil
  then show ?case by simp
next
  case (Cons m ms)
  let ?t = "main_recv m s"
  have nc: "\<not> is_cap_request m" and na: "m HDR_FCB AND FCB_FCA = 0"
    using Cons.prems(3) by simp_all
  have same: "ifcm_sent ?t = ifcm_sent s" by (rule main_recv_owed[OF Cons.prems(1,2) nc na])
  have owed: "fca_owed ?t \<noteq> 0"
    using flow_ctl_owed(2)[of s m] Cons.prems(1,2) na
    by (simp add: main_recv_pacing proc_DLSw_pacing(5)[OF nc])
  have fc: "flow_control ?t \<noteq> 0"
    using proc_DLSw_flow_control[OF Cons.prems(1), of m] by (simp add: main_recv_pacing)
  have "main_marks ms ?t = replicate (length ms) 0"
    using Cons.IH[OF fc owed] Cons.prems(3) by simp
  then show ?case using same by simp
qed

lemma main_marks_grant:
  assumes "flow_control s \<noteq> 0" and "fca_owed s = 0"
    and "rp_granted_units s - 1 \<le> fc_current_window s"
    and "\<forall>x \<in> set (m # ms). \<not> is_cap_request x \<and> x HDR_FCB AND FCB_FCA = 0"
  shows "main_marks (m # ms) s = (ifcm_sent (main_recv m s) - ifcm_sent s) # replicate (length ms) 0"
    and "0 < ifcm_sent (main_recv m s) - ifcm_sent s"
proof -
  let ?t = "main_recv m s"
  have nc: "\<not> is_cap_request m" using assms(4) by simp
  have one: "ifcm_sent (snd (proc_DLSw m s)) = ifcm_sent s + 1"
    using flow_ctl_grant(1)[OF assms(1,2,3), of m] ifcm_sent_cong[OF proc_DLSw_pacing(4)[OF nc, of s]]
    by simp
  show "0 < ifcm_sent ?t - ifcm_sent s" using one main_recv_ifcm_ge[of m s] by simp
  have owed: "fca_owed ?t \<noteq> 0"
    using flow_ctl_grant(2)[OF assms(1,2,3), of m] proc_DLSw_pacing(5)[OF nc, of s]
    by (simp add: main_recv_pacing)
  have fc: "flow_control ?t \<noteq> 0"
    using proc_DLSw_flow_control[OF assms(1), of m] by (simp add: main_recv_pacing)
  have "main_marks ms ?t = replicate (length ms) 0"
    using main_marks_owed[OF fc owed] assms(4) by simp
  then show "main_marks (m # ms) s = (ifcm_sent ?t - ifcm_sent s) # replicate (length ms) 0"
    by simp
qed

text \<open>
  An information frame on which the flow control step sends its IFCM: \<^verbatim>\<open>proc_DLSw\<close>
  returns the 16 of the flow control step with the IFCM still in \<open>DLSw_wbuf\<close>, and
  \<^verbatim>\<open>main\<close> sends it again.
\<close>

lemma flow_ctl_grant_buf:
  assumes "flow_control s \<noteq> 0" "fca_owed s = 0" "rp_granted_units s - 1 \<le> fc_current_window s"
  shows "fst (flow_ctl m s) = 16"
    and "DLSw_wbuf (snd (flow_ctl m s)) HDR_MTYP = IFCM"
    and "DLSw_wbuf (snd (flow_ctl m s)) HDR_FCB = 0x80"
  using assms by (simp_all add: flow_ctl_def Let_def memcpy_apply)

lemma proc_DLSw_INFOFRAME_reply:
  assumes "is_INFOFRAME m"
  shows "fst (proc_DLSw m s) = fst (flow_ctl m s)"
    and "DLSw_wbuf (snd (proc_DLSw m s)) = DLSw_wbuf (snd (flow_ctl m s))"
  using assms
  by (simp_all add: proc_DLSw_def is_INFOFRAME_def case_INFOFRAME_def Let_def split: prod.split)

lemma main_recv_INFOFRAME_twice:
  assumes "is_INFOFRAME m" and "flow_control s \<noteq> 0" and "fca_owed s = 0"
    and "rp_granted_units s - 1 \<le> fc_current_window s"
  shows "ifcm_sent (main_recv m s) = ifcm_sent s + 2"
proof -
  have nc: "\<not> is_cap_request m" using assms(1) by (simp add: is_INFOFRAME_def is_cap_request_def)
  note b = flow_ctl_grant_buf[OF assms(2,3,4), of m]
  note r = proc_DLSw_INFOFRAME_reply[OF assms(1), of s]
  have one: "ifcm_sent (snd (proc_DLSw m s)) = ifcm_sent s + 1"
    using flow_ctl_grant(1)[OF assms(2,3,4), of m] ifcm_sent_cong[OF proc_DLSw_pacing(4)[OF nc, of s]]
    by simp
  have again: "is_IFCM_RPT (slice (DLSw_wbuf (snd (proc_DLSw m s))) 0 (nat (fst (proc_DLSw m s))))"
    by (simp add: is_IFCM_RPT_slice_iff r b)
  have n: "fst (proc_DLSw m s) \<noteq> 0" by (simp add: r b)
  show ?thesis
    using one again n by (simp add: ifcm_sent_def main_recv_sent)
qed

text \<open>
  C2, as the code has it. Flow control is on, no acknowledge is owed, and
  \<open>fc_current_window = rp_granted_units = 4\<close>. The peer sends five messages in a row,
  none of them a capabilities request and none carrying a flow control acknowledge, and
  each is taken through the receive step of \<^verbatim>\<open>main\<close>. Then IFCM repeat messages go out
  on the DLSw socket while the first of the five is handled (the counter drops to 3,
  which is not above the window of 4), and none while the second to fifth are. The
  number that go out on the first depends on the kind of message.
\<close>

theorem ifcm_only_on_first_frame:
  assumes "flow_control s \<noteq> 0" and "fca_owed s = 0"
    and "fc_current_window s = 4" and "rp_granted_units s = 4"
    and "length ms = 5"
    and "\<forall>m \<in> set ms. \<not> is_cap_request m \<and> m HDR_FCB AND FCB_FCA = 0"
  shows "map (\<lambda>n. 0 < n) (main_marks ms s) = [True, False, False, False, False]"
proof -
  from assms(5) obtain m ms' where ms: "ms = m # ms'" and len: "length ms' = 4"
    by (cases ms) auto
  have le: "rp_granted_units s - 1 \<le> fc_current_window s" using assms(3,4) by simp
  have all: "\<forall>x \<in> set (m # ms'). \<not> is_cap_request x \<and> x HDR_FCB AND FCB_FCA = 0"
    using assms(6) ms by simp
  show ?thesis
    using main_marks_grant[OF assms(1,2) le all] ms len
    by (simp add: numeral_eq_Suc)
qed

lemma five_frames_split:
  "five_frames = ctl_msg 16 INFOFRAME 0 # replicate 4 (ctl_msg 16 INFOFRAME 0)"
  by (simp add: five_frames_def numeral_eq_Suc)

lemma five_frames_simps:
  "length five_frames = 5" "set five_frames = {ctl_msg 16 INFOFRAME 0}"
  "\<not> is_cap_request (ctl_msg 16 INFOFRAME 0)" "ctl_msg 16 INFOFRAME 0 HDR_FCB AND FCB_FCA = 0"
  "is_INFOFRAME (ctl_msg 16 INFOFRAME 0)"
  by (simp_all add: five_frames_def is_cap_request_def is_INFOFRAME_def)

theorem ifcm_only_on_first_frame_witness:
  "flow_control (paced 4) \<noteq> 0 \<and> fca_owed (paced 4) = 0
   \<and> fc_current_window (paced 4) = 4 \<and> rp_granted_units (paced 4) = 4
   \<and> length five_frames = 5
   \<and> set five_frames = {ctl_msg 16 INFOFRAME 0}
   \<and> \<not> is_cap_request (ctl_msg 16 INFOFRAME 0)
   \<and> ctl_msg 16 INFOFRAME 0 HDR_FCB AND FCB_FCA = 0
   \<and> map (\<lambda>n. 0 < n) (main_marks five_frames (paced 4)) = [True, False, False, False, False]"
proof -
  have a: "flow_control (paced 4) \<noteq> 0" and b: "fca_owed (paced 4) = 0"
    and c: "fc_current_window (paced 4) = 4" and d: "rp_granted_units (paced 4) = 4"
    by simp_all
  have g: "\<forall>m \<in> set five_frames. \<not> is_cap_request m \<and> m HDR_FCB AND FCB_FCA = 0"
    by (simp add: five_frames_simps)
  from ifcm_only_on_first_frame[OF a b c d five_frames_simps(1) g] a b c d
  show ?thesis by (simp add: five_frames_simps)
qed

text \<open>
  The claim as stated has exactly one IFCM, after the fourth frame. For five
  information frames received with the window and the counter at 4, two go out while
  the first is handled, the one that the flow control step of \<^verbatim>\<open>proc_DLSw\<close> sends and the
  same 16 bytes again from \<^verbatim>\<open>main\<close>, and none on the fourth.
\<close>

theorem ifcm_twice_on_first_counterexample:
  "flow_control (paced 4) \<noteq> 0
   \<and> fc_current_window (paced 4) = 4 \<and> rp_granted_units (paced 4) = 4
   \<and> length five_frames = 5
   \<and> main_marks five_frames (paced 4) = [2, 0, 0, 0, 0]
   \<and> main_marks five_frames (paced 4) ! 3 = 0
   \<and> sum_list (main_marks five_frames (paced 4)) \<noteq> 1"
proof -
  let ?m = "ctl_msg 16 INFOFRAME 0"
  have a: "flow_control (paced 4) \<noteq> 0" and b: "fca_owed (paced 4) = 0"
    and le: "rp_granted_units (paced 4) - 1 \<le> fc_current_window (paced 4)"
    by simp_all
  have all: "\<forall>x \<in> set (?m # replicate 4 ?m). \<not> is_cap_request x \<and> x HDR_FCB AND FCB_FCA = 0"
    by (simp add: five_frames_simps)
  have two: "ifcm_sent (main_recv ?m (paced 4)) - ifcm_sent (paced 4) = 2"
    using main_recv_INFOFRAME_twice[OF five_frames_simps(5) a b le] by simp
  have m: "main_marks five_frames (paced 4) = [2, 0, 0, 0, 0]"
    unfolding five_frames_split main_marks_grant(1)[OF a b le all] two
    by (simp add: numeral_eq_Suc)
  show ?thesis unfolding m by (simp add: five_frames_simps(1))
qed

subsection \<open>C3: an information frame becomes an SDLC I-frame\<close>

lemma flow_ctl_sdlc:
  "SDLC_wbuf (snd (flow_ctl m s)) = SDLC_wbuf s"
  "SDLCwlen (snd (flow_ctl m s)) = SDLCwlen s"
  "seq_Nr (snd (flow_ctl m s)) = seq_Nr s"
  by (simp_all add: flow_ctl_def Let_def)

lemma proc_DLSw_INFOFRAME:
  assumes "is_INFOFRAME m"
  shows "snd (proc_DLSw m s) =
    snd (case_INFOFRAME m (push_bit 8 (ucast (m HDR_MLEN)) + ucast (m (HDR_MLEN + 1))) (m HDR_HLEN)
          (fst (flow_ctl m s)) (snd (flow_ctl m s)))"
  using assms by (simp add: proc_DLSw_def is_INFOFRAME_def Let_def split: prod.split)

lemma case_INFOFRAME_10_bytes:
  assumes "seq_Ns s = 0" "seq_Nr s = 0" "unat (SDLCwlen s) + 18 < 65536"
  shows "SDLC_wbuf (snd (case_INFOFRAME m 10 h n s)) (unat (SDLCwlen s)) = 0x00"
    and "SDLC_wbuf (snd (case_INFOFRAME m 10 h n s)) (unat (SDLCwlen s) + 1) = 0x10"
    and "SDLC_wbuf (snd (case_INFOFRAME m 10 h n s)) (unat (SDLCwlen s) + 2) = 0x7E"
    and "SDLC_wbuf (snd (case_INFOFRAME m 10 h n s)) (unat (SDLCwlen s) + 3) = 0xC1"
    and "SDLC_wbuf (snd (case_INFOFRAME m 10 h n s)) (unat (SDLCwlen s) + 4) = 0x10"
    and "SDLC_wbuf (snd (case_INFOFRAME m 10 h n s)) (unat (SDLCwlen s) + 5) = m (unat h + 0)"
    and "SDLC_wbuf (snd (case_INFOFRAME m 10 h n s)) (unat (SDLCwlen s) + 6) = m (unat h + 1)"
    and "SDLC_wbuf (snd (case_INFOFRAME m 10 h n s)) (unat (SDLCwlen s) + 7) = m (unat h + 2)"
    and "SDLC_wbuf (snd (case_INFOFRAME m 10 h n s)) (unat (SDLCwlen s) + 8) = m (unat h + 3)"
    and "SDLC_wbuf (snd (case_INFOFRAME m 10 h n s)) (unat (SDLCwlen s) + 9) = m (unat h + 4)"
    and "SDLC_wbuf (snd (case_INFOFRAME m 10 h n s)) (unat (SDLCwlen s) + 10) = m (unat h + 5)"
    and "SDLC_wbuf (snd (case_INFOFRAME m 10 h n s)) (unat (SDLCwlen s) + 11) = m (unat h + 6)"
    and "SDLC_wbuf (snd (case_INFOFRAME m 10 h n s)) (unat (SDLCwlen s) + 12) = m (unat h + 7)"
    and "SDLC_wbuf (snd (case_INFOFRAME m 10 h n s)) (unat (SDLCwlen s) + 13) = m (unat h + 8)"
    and "SDLC_wbuf (snd (case_INFOFRAME m 10 h n s)) (unat (SDLCwlen s) + 14) = m (unat h + 9)"
    and "SDLC_wbuf (snd (case_INFOFRAME m 10 h n s)) (unat (SDLCwlen s) + 15) = 0x47"
    and "SDLC_wbuf (snd (case_INFOFRAME m 10 h n s)) (unat (SDLCwlen s) + 16) = 0x0F"
    and "SDLC_wbuf (snd (case_INFOFRAME m 10 h n s)) (unat (SDLCwlen s) + 17) = 0x7E"
proof -
  have l1: "unat (1 + SDLCwlen s) = unat (SDLCwlen s) + 1"
    using assms(3) by (simp add: unat_word_ariths)
  have l2: "unat (2 + SDLCwlen s) = unat (SDLCwlen s) + 2"
    using assms(3) by (simp add: unat_word_ariths)
  have l1': "unat (SDLCwlen s + 1) = unat (SDLCwlen s) + 1"
    using l1 by (simp add: add.commute)
  have l2': "unat (SDLCwlen s + 1 + 1) = unat (SDLCwlen s) + 2"
    using l2 by (simp add: add.commute)
  note defs = l1 l2 l1' l2' case_INFOFRAME_def Let_def memcpy_apply arr_def SDLC_FCSLT_def assms(1,2)
  show "SDLC_wbuf (snd (case_INFOFRAME m 10 h n s)) (unat (SDLCwlen s)) = 0x00"
    by (simp add: defs)
  show "SDLC_wbuf (snd (case_INFOFRAME m 10 h n s)) (unat (SDLCwlen s) + 1) = 0x10"
    by (simp add: defs)
  show "SDLC_wbuf (snd (case_INFOFRAME m 10 h n s)) (unat (SDLCwlen s) + 2) = 0x7E"
    by (simp add: defs)
  show "SDLC_wbuf (snd (case_INFOFRAME m 10 h n s)) (unat (SDLCwlen s) + 3) = 0xC1"
    by (simp add: defs)
  show "SDLC_wbuf (snd (case_INFOFRAME m 10 h n s)) (unat (SDLCwlen s) + 4) = 0x10"
    by (simp add: defs)
  show "SDLC_wbuf (snd (case_INFOFRAME m 10 h n s)) (unat (SDLCwlen s) + 5) = m (unat h + 0)"
    by (simp add: defs)
  show "SDLC_wbuf (snd (case_INFOFRAME m 10 h n s)) (unat (SDLCwlen s) + 6) = m (unat h + 1)"
    by (simp add: defs)
  show "SDLC_wbuf (snd (case_INFOFRAME m 10 h n s)) (unat (SDLCwlen s) + 7) = m (unat h + 2)"
    by (simp add: defs)
  show "SDLC_wbuf (snd (case_INFOFRAME m 10 h n s)) (unat (SDLCwlen s) + 8) = m (unat h + 3)"
    by (simp add: defs)
  show "SDLC_wbuf (snd (case_INFOFRAME m 10 h n s)) (unat (SDLCwlen s) + 9) = m (unat h + 4)"
    by (simp add: defs)
  show "SDLC_wbuf (snd (case_INFOFRAME m 10 h n s)) (unat (SDLCwlen s) + 10) = m (unat h + 5)"
    by (simp add: defs)
  show "SDLC_wbuf (snd (case_INFOFRAME m 10 h n s)) (unat (SDLCwlen s) + 11) = m (unat h + 6)"
    by (simp add: defs)
  show "SDLC_wbuf (snd (case_INFOFRAME m 10 h n s)) (unat (SDLCwlen s) + 12) = m (unat h + 7)"
    by (simp add: defs)
  show "SDLC_wbuf (snd (case_INFOFRAME m 10 h n s)) (unat (SDLCwlen s) + 13) = m (unat h + 8)"
    by (simp add: defs)
  show "SDLC_wbuf (snd (case_INFOFRAME m 10 h n s)) (unat (SDLCwlen s) + 14) = m (unat h + 9)"
    by (simp add: defs)
  show "SDLC_wbuf (snd (case_INFOFRAME m 10 h n s)) (unat (SDLCwlen s) + 15) = 0x47"
    by (simp add: defs)
  show "SDLC_wbuf (snd (case_INFOFRAME m 10 h n s)) (unat (SDLCwlen s) + 16) = 0x0F"
    by (simp add: defs)
  show "SDLC_wbuf (snd (case_INFOFRAME m 10 h n s)) (unat (SDLCwlen s) + 17) = 0x7E"
    by (simp add: defs)
qed

lemma case_INFOFRAME_10:
  assumes "seq_Ns s = 0" "seq_Nr s = 0" "unat (SDLCwlen s) + 18 < 65536"
  shows "slice (SDLC_wbuf (snd (case_INFOFRAME m 10 h n s))) (unat (SDLCwlen s)) 18
         = [0x00, 0x10] @ [0x7E, 0xC1, 0x10] @ slice m (unat h) 10 @ [0x47, 0x0F, 0x7E]"
    and "unat (SDLCwlen (snd (case_INFOFRAME m 10 h n s))) = unat (SDLCwlen s) + 18"
    and "seq_Ns (snd (case_INFOFRAME m 10 h n s)) = 1"
    and "state (snd (case_INFOFRAME m 10 h n s)) = state s"
proof -
  show "slice (SDLC_wbuf (snd (case_INFOFRAME m 10 h n s))) (unat (SDLCwlen s)) 18
         = [0x00, 0x10] @ [0x7E, 0xC1, 0x10] @ slice m (unat h) 10 @ [0x47, 0x0F, 0x7E]"
    unfolding slice_18 slice_10 case_INFOFRAME_10_bytes[OF assms] by simp
  show "unat (SDLCwlen (snd (case_INFOFRAME m 10 h n s))) = unat (SDLCwlen s) + 18"
    using assms(3) by (simp add: case_INFOFRAME_def Let_def unat_word_ariths)
  show "seq_Ns (snd (case_INFOFRAME m 10 h n s)) = 1"
    using assms(1) by (simp add: case_INFOFRAME_def Let_def)
  show "state (snd (case_INFOFRAME m 10 h n s)) = state s"
    by (simp add: case_INFOFRAME_def Let_def)
qed

text \<open>
  C3. An INFOFRAME of message length 10 is processed with \<open>seq_Ns = 0\<close> and \<open>seq_Nr = 0\<close>
  (the code does not look at the circuit state, so this holds in CONNECTED as in any
  other state), and the 18 bytes written fit into \<open>SDLC_wbuf\<close>. Afterwards
  \<open>SDLC_wbuf\<close> holds, from the old \<open>SDLCwlen\<close> on, the two-byte length prefix \<open>00 10\<close>
  and then the frame \<open>7E C1 ctrl\<close>, the ten payload bytes copied from the message body
  (the bytes behind the header), \<open>47 0F 7E\<close>. The control byte is \<open>0x10\<close>: bits 1 to 3
  (Ns) and the high three bits (Nr) are zero. \<open>SDLCwlen\<close> has grown by 18, \<open>seq_Ns\<close> is 1
  and the circuit state is unchanged.
\<close>

theorem infoframe_to_sdlc:
  assumes "is_INFOFRAME m"
    and "m HDR_MLEN = 0x00" and "m (HDR_MLEN + 1) = 0x0A"
    and "seq_Ns s = 0" and "seq_Nr s = 0"
    and "unat (SDLCwlen s) + 18 < 65536"
  shows "slice (SDLC_wbuf (snd (proc_DLSw m s))) (unat (SDLCwlen s)) 18
           = [0x00, 0x10] @ [0x7E, 0xC1, 0x10] @ slice m (unat (m HDR_HLEN)) 10 @ [0x47, 0x0F, 0x7E]
         \<and> (0x10 :: u8) AND 0x0E = 0 \<and> (0x10 :: u8) AND 0xE0 = 0
         \<and> unat (SDLCwlen (snd (proc_DLSw m s))) = unat (SDLCwlen s) + 18
         \<and> seq_Ns (snd (proc_DLSw m s)) = 1
         \<and> state (snd (proc_DLSw m s)) = state s"
proof -
  let ?t = "snd (flow_ctl m s)"
  have len: "(push_bit 8 (ucast (m HDR_MLEN)) + ucast (m (HDR_MLEN + 1)) :: u16) = 10"
    using assms(2,3) by simp
  have t: "seq_Ns ?t = 0" "seq_Nr ?t = 0" "unat (SDLCwlen ?t) + 18 < 65536"
    using assms(4,5,6) by (simp_all add: flow_ctl_windows flow_ctl_sdlc)
  have eq: "snd (proc_DLSw m s) = snd (case_INFOFRAME m 10 (m HDR_HLEN) (fst (flow_ctl m s)) ?t)"
    using proc_DLSw_INFOFRAME[OF assms(1), of s] len by simp
  show ?thesis
    unfolding eq using case_INFOFRAME_10[OF t]
    by (simp add: flow_ctl_windows flow_ctl_sdlc)
qed

lemma info10_payload: "slice info10 16 10 = [1, 2, 3, 4, 5, 6, 7, 8, 9, 10]"
  by (simp add: slice_10 info10_def arr_def)

theorem infoframe_to_sdlc_witness:
  "is_INFOFRAME info10 \<and> info10 HDR_MLEN = 0x00 \<and> info10 (HDR_MLEN + 1) = 0x0A
   \<and> seq_Ns (dlsw_init\<lparr>state := CONNECTED\<rparr>) = 0 \<and> seq_Nr (dlsw_init\<lparr>state := CONNECTED\<rparr>) = 0
   \<and> unat (SDLCwlen (dlsw_init\<lparr>state := CONNECTED\<rparr>)) + 18 < 65536
   \<and> slice (SDLC_wbuf (snd (proc_DLSw info10 (dlsw_init\<lparr>state := CONNECTED\<rparr>)))) 0 18
       = [0x00, 0x10, 0x7E, 0xC1, 0x10, 1, 2, 3, 4, 5, 6, 7, 8, 9, 10, 0x47, 0x0F, 0x7E]
   \<and> seq_Ns (snd (proc_DLSw info10 (dlsw_init\<lparr>state := CONNECTED\<rparr>))) = 1
   \<and> state (snd (proc_DLSw info10 (dlsw_init\<lparr>state := CONNECTED\<rparr>))) = CONNECTED"
proof -
  have h: "is_INFOFRAME info10" "info10 HDR_MLEN = 0x00" "info10 (HDR_MLEN + 1) = 0x0A"
    "info10 HDR_HLEN = 16"
    by (simp_all add: is_INFOFRAME_def info10_def arr_def)
  have z: "seq_Ns (dlsw_init\<lparr>state := CONNECTED\<rparr>) = 0" "seq_Nr (dlsw_init\<lparr>state := CONNECTED\<rparr>) = 0"
    "unat (SDLCwlen (dlsw_init\<lparr>state := CONNECTED\<rparr>)) + 18 < 65536"
    "unat (SDLCwlen (dlsw_init\<lparr>state := CONNECTED\<rparr>)) = 0"
    by (simp_all add: dlsw_init_def)
  from infoframe_to_sdlc[OF h(1,2,3) z(1,2,3)] h z show ?thesis
    by (simp add: info10_payload)
qed

subsection \<open>C4: the send sequence number\<close>

lemma proc_DLSw_seq_Ns:
  "seq_Ns (snd (proc_DLSw m s)) =
     (if is_INFOFRAME m then (if seq_Ns s + 1 = 8 then 0 else seq_Ns s + 1) else seq_Ns s)"
proof -
  obtain n t where ft: "flow_ctl m s = (n, t)" by (cases "flow_ctl m s")
  have "seq_Ns t = seq_Ns s" using flow_ctl_windows(4)[of m s] ft by simp
  then show ?thesis
    by (simp add: proc_DLSw_def ft is_INFOFRAME_def case_defs Let_def)
qed

lemma seq_Ns_next:
  assumes "unat (x :: u8) < 8"
  shows "unat (if x + 1 = 8 then 0 else x + 1) = (unat x + 1) mod 8"
proof -
  have u: "unat (x + 1) = unat x + 1" using assms by (simp add: unat_word_ariths)
  have e: "x = 7 \<longleftrightarrow> unat x = 7" using word_unat_eq_iff[of x 7] by simp
  show ?thesis
  proof (cases "x = 7")
    case True
    then show ?thesis by simp
  next
    case False
    then have "unat x + 1 < 8" using assms e by arith
    then show ?thesis using False u by simp
  qed
qed

lemma proc_DLSw_seq_Ns_count:
  assumes "unat (seq_Ns s) < 8"
  shows "unat (seq_Ns (proc_DLSw_seq ms s)) = (unat (seq_Ns s) + length (filter is_INFOFRAME ms)) mod 8"
  using assms
proof (induction ms arbitrary: s)
  case Nil
  then show ?case by simp
next
  case (Cons m ms)
  let ?t = "snd (proc_DLSw m s)"
  show ?case
  proof (cases "is_INFOFRAME m")
    case True
    have n: "unat (seq_Ns ?t) = (unat (seq_Ns s) + 1) mod 8"
      using seq_Ns_next[OF Cons.prems] True by (simp add: proc_DLSw_seq_Ns)
    then have "unat (seq_Ns ?t) < 8" by simp
    from Cons.IH[OF this] n True show ?thesis by (simp add: mod_simps)
  next
    case False
    have n: "seq_Ns ?t = seq_Ns s" using False by (simp add: proc_DLSw_seq_Ns)
    from Cons.IH[of ?t] Cons.prems n False show ?thesis by simp
  qed
qed

text \<open>
  C4. From \<open>seq_Ns = 0\<close> (as \<^verbatim>\<open>main\<close> sets it at start and on an SNRM), after any run of
  messages \<open>seq_Ns\<close> is the number of INFOFRAME messages in the run modulo 8: messages of
  other types leave it alone, and each INFOFRAME injects one I-frame and adds one. In
  particular an INFOFRAME processed at \<open>seq_Ns = 7\<close> leaves \<open>seq_Ns = 0\<close>.
\<close>

theorem seq_Ns_counts_mod_8:
  "unat (seq_Ns (proc_DLSw_seq ms (seq_reset s))) = length (filter is_INFOFRAME ms) mod 8
   \<and> (seq_Ns s = 7 \<and> is_INFOFRAME m \<longrightarrow> seq_Ns (snd (proc_DLSw m s)) = 0)"
  using proc_DLSw_seq_Ns_count[of "seq_reset s" ms]
  by (simp add: seq_reset_def proc_DLSw_seq_Ns)

theorem seq_Ns_counts_mod_8_witness:
  "seq_Ns (dlsw_init\<lparr>seq_Ns := 7\<rparr>) = 7 \<and> is_INFOFRAME info10
   \<and> seq_Ns (snd (proc_DLSw info10 (dlsw_init\<lparr>seq_Ns := 7\<rparr>))) = 0"
  using seq_Ns_counts_mod_8[of "[]" "dlsw_init\<lparr>seq_Ns := 7\<rparr>" info10]
  by (simp add: is_INFOFRAME_def info10_def arr_def)

subsection \<open>C5: the capabilities exchange\<close>

lemma proc_DLSw_CAP:
  assumes "is_cap_request m"
  shows "proc_DLSw m s = case_CAP_EXCHANGE m (m HDR_HLEN) (fst (flow_ctl m s)) (snd (flow_ctl m s))"
  using assms by (simp add: proc_DLSw_def is_cap_request_def Let_def split: prod.split)

lemma case_CAP_EXCHANGE_reply_nth:
  assumes "is_cap_request m" and "i < 76"
  shows "DLSw_wbuf (snd (case_CAP_EXCHANGE m (m HDR_HLEN) n t)) i
         = (CONTROL_MSG_Hdr[HDR_MLEN := 0x00, HDR_MLEN + 1 := 0x04, HDR_MTYP := CAP_EXCHANGE,
                            HDR_DIR := DIR_TGT] @ [0x00, 0x04, 0x15, 0x21]) ! i"
proof -
  note defs = case_CAP_EXCHANGE_def is_cap_request_def Let_def memcpy_apply arr_def
    CAP_EXCHANGE_Rsp_def nth_append nth_list_update
  consider "i = 2" | "i = 3" | "i = 14" | "i = 38" | "i = 72" | "i = 73" | "i = 74" | "i = 75"
    | "i < 72" "i \<noteq> 2" "i \<noteq> 3" "i \<noteq> 14" "i \<noteq> 38"
    using assms(2) by arith
  then show ?thesis
  proof cases
    case 9
    then show ?thesis using assms(1) by (auto simp add: defs)
  qed (use assms(1) in \<open>simp_all add: defs\<close>)
qed

lemma case_CAP_EXCHANGE_reply:
  assumes "is_cap_request m"
  shows "slice (DLSw_wbuf (snd (case_CAP_EXCHANGE m (m HDR_HLEN) n t))) 0 76
         = CONTROL_MSG_Hdr[HDR_MLEN := 0x00, HDR_MLEN + 1 := 0x04, HDR_MTYP := CAP_EXCHANGE,
                           HDR_DIR := DIR_TGT] @ [0x00, 0x04, 0x15, 0x21]"
proof (rule nth_equalityI)
  show "length (slice (DLSw_wbuf (snd (case_CAP_EXCHANGE m (m HDR_HLEN) n t))) 0 76)
        = length (CONTROL_MSG_Hdr[HDR_MLEN := 0x00, HDR_MLEN + 1 := 0x04, HDR_MTYP := CAP_EXCHANGE,
                           HDR_DIR := DIR_TGT] @ [0x00, 0x04, 0x15, 0x21])"
    by simp
next
  fix i
  assume "i < length (slice (DLSw_wbuf (snd (case_CAP_EXCHANGE m (m HDR_HLEN) n t))) 0 76)"
  then have i: "i < 76" by simp
  show "slice (DLSw_wbuf (snd (case_CAP_EXCHANGE m (m HDR_HLEN) n t))) 0 76 ! i
        = (CONTROL_MSG_Hdr[HDR_MLEN := 0x00, HDR_MLEN + 1 := 0x04, HDR_MTYP := CAP_EXCHANGE,
                           HDR_DIR := DIR_TGT] @ [0x00, 0x04, 0x15, 0x21]) ! i"
    using case_CAP_EXCHANGE_reply_nth[OF assms i, of n t] i by (simp only: slice_nth add_0)
qed

lemma case_CAP_EXCHANGE_fields:
  assumes "is_cap_request m"
  shows "fc_init_window_size (snd (case_CAP_EXCHANGE m (m HDR_HLEN) n t))
           = 256 * uint (m (unat (m HDR_HLEN) + CAP_IPW_OFF + 2)) + uint (m (unat (m HDR_HLEN) + CAP_IPW_OFF + 3))"
    and "fc_current_window (snd (case_CAP_EXCHANGE m (m HDR_HLEN) n t))
           = 256 * uint (m (unat (m HDR_HLEN) + CAP_IPW_OFF + 2)) + uint (m (unat (m HDR_HLEN) + CAP_IPW_OFF + 3))"
    and "rp_granted_units (snd (case_CAP_EXCHANGE m (m HDR_HLEN) n t))
           = 256 * uint (m (unat (m HDR_HLEN) + CAP_IPW_OFF + 2)) + uint (m (unat (m HDR_HLEN) + CAP_IPW_OFF + 3))"
    and "lp_granted_units (snd (case_CAP_EXCHANGE m (m HDR_HLEN) n t))
           = 256 * uint (m (unat (m HDR_HLEN) + CAP_IPW_OFF + 2)) + uint (m (unat (m HDR_HLEN) + CAP_IPW_OFF + 3))"
    and "fca_owed (snd (case_CAP_EXCHANGE m (m HDR_HLEN) n t)) = 0"
    and "fst (case_CAP_EXCHANGE m (m HDR_HLEN) n t) = 76"
    and "state (snd (case_CAP_EXCHANGE m (m HDR_HLEN) n t)) = state t"
    and "dlsw_wfd_sent (snd (case_CAP_EXCHANGE m (m HDR_HLEN) n t)) = dlsw_wfd_sent t"
  using assms
  by (simp_all add: case_CAP_EXCHANGE_def is_cap_request_def Let_def push_bit_eq_mult)

text \<open>
  C5. A CAP\_EXCHANGE message whose GDS id is \<open>0x1520\<close> is processed in any state. The
  initial pacing window it carries (the two bytes at offset \<open>CAP_IPW_OFF + 2\<close> behind the
  header, high byte first) becomes \<open>fc_init_window_size\<close>; \<open>fc_current_window\<close>,
  \<open>rp_granted_units\<close> and \<open>lp_granted_units\<close> are set to it and \<open>fca_owed\<close> is cleared.
  \<^verbatim>\<open>proc_DLSw\<close> returns 76 and leaves in \<open>DLSw_wbuf\<close> the 72-byte control header with
  message length \<open>00 04\<close>, message type CAP\_EXCHANGE and direction \<open>0x01\<close>, followed by
  \<open>00 04 15 21\<close>; \<^verbatim>\<open>main\<close> sends these 76 bytes as the last message of the step. The
  circuit state is unchanged.
\<close>

theorem cap_exchange_reply:
  assumes "is_cap_request m"
  shows "fc_init_window_size (snd (proc_DLSw m s))
           = 256 * uint (m (unat (m HDR_HLEN) + CAP_IPW_OFF + 2)) + uint (m (unat (m HDR_HLEN) + CAP_IPW_OFF + 3))
       \<and> fc_current_window (snd (proc_DLSw m s)) = fc_init_window_size (snd (proc_DLSw m s))
       \<and> rp_granted_units (snd (proc_DLSw m s)) = fc_init_window_size (snd (proc_DLSw m s))
       \<and> lp_granted_units (snd (proc_DLSw m s)) = fc_init_window_size (snd (proc_DLSw m s))
       \<and> fca_owed (snd (proc_DLSw m s)) = 0
       \<and> fst (proc_DLSw m s) = 76
       \<and> slice (DLSw_wbuf (snd (proc_DLSw m s))) 0 76
           = CONTROL_MSG_Hdr[HDR_MLEN := 0x00, HDR_MLEN + 1 := 0x04, HDR_MTYP := CAP_EXCHANGE,
                             HDR_DIR := DIR_TGT] @ [0x00, 0x04, 0x15, 0x21]
       \<and> dlsw_wfd_sent (main_recv m s)
           = dlsw_wfd_sent (snd (flow_ctl m s)) @ [slice (DLSw_wbuf (snd (proc_DLSw m s))) 0 76]
       \<and> state (snd (proc_DLSw m s)) = state s"
proof -
  note f = case_CAP_EXCHANGE_fields[OF assms, of "fst (flow_ctl m s)" "snd (flow_ctl m s)"]
  note r = case_CAP_EXCHANGE_reply[OF assms, of "fst (flow_ctl m s)" "snd (flow_ctl m s)"]
  have mr: "dlsw_wfd_sent (main_recv m s)
           = dlsw_wfd_sent (snd (flow_ctl m s)) @ [slice (DLSw_wbuf (snd (proc_DLSw m s))) 0 76]"
    using f(6,8) by (simp add: main_recv_sent proc_DLSw_CAP[OF assms])
  show ?thesis
    using f r mr by (simp add: proc_DLSw_CAP[OF assms] flow_ctl_windows)
qed

theorem cap_exchange_reply_witness:
  "is_cap_request capex_request
   \<and> fc_init_window_size (snd (proc_DLSw capex_request dlsw_init)) = 20
   \<and> rp_granted_units (snd (proc_DLSw capex_request dlsw_init)) = 20
   \<and> fst (proc_DLSw capex_request dlsw_init) = 76
   \<and> state (snd (proc_DLSw capex_request dlsw_init)) = DISCONNECTED"
proof -
  have w: "256 * uint (capex_request (unat (capex_request HDR_HLEN) + CAP_IPW_OFF + 2))
             + uint (capex_request (unat (capex_request HDR_HLEN) + CAP_IPW_OFF + 3)) = 20"
    using capex_request_window by (simp add: push_bit_eq_mult)
  have d: "state dlsw_init = DISCONNECTED" by (simp add: dlsw_init_def)
  from cap_exchange_reply[OF is_cap_request_capex, of dlsw_init] is_cap_request_capex w d
  show ?thesis by simp
qed


subsection \<open>C6: HALT\_DL\<close>

lemma slice_4: "slice a off 4 = [a off, a (off + 1), a (off + 2), a (off + 3)]"
  by (simp add: slice_def upt_rec numeral_eq_Suc)

lemma flow_ctl_sent_cases:
  "\<exists>xs. dlsw_wfd_sent (snd (flow_ctl m s)) = dlsw_wfd_sent s @ xs \<and> (\<forall>x \<in> set xs. is_IFCM_RPT x)"
  by (simp add: flow_ctl_def Let_def is_IFCM_RPT_slice memcpy_apply)

lemma IFCM_not_DL_HALTED: "is_IFCM_RPT x \<Longrightarrow> \<not> is_DL_HALTED x"
  by (simp add: is_IFCM_RPT_def is_DL_HALTED_def)

lemma proc_DLSw_HALT:
  assumes "is_HALT_DL m"
  shows "proc_DLSw m s = case_HALT_DL m (m HDR_HLEN) (snd (flow_ctl m s))"
  using assms by (simp add: proc_DLSw_def is_HALT_DL_def Let_def split: prod.split)

lemma case_HALT_DL_fields:
  "DLSw_wbuf (snd (case_HALT_DL m h t)) HDR_MTYP = DL_HALTED"
  "DLSw_wbuf (snd (case_HALT_DL m h t)) HDR_DIR = DIR_ORG"
  "DLSw_wbuf (snd (case_HALT_DL m h t)) HDR_MLEN = 0"
  "DLSw_wbuf (snd (case_HALT_DL m h t)) (HDR_MLEN + 1) = 0"
  "slice (DLSw_wbuf (snd (case_HALT_DL m h t))) HDR_RDLC 4 = slice m HDR_ODLC 4"
  "slice (DLSw_wbuf (snd (case_HALT_DL m h t))) HDR_RDPID 4 = slice m HDR_ODPID 4"
  "fst (case_HALT_DL m h t) = uint h"
  "rs232_fd_sent (snd (case_HALT_DL m h t)) = rs232_fd_sent t @ [NOT RTS]"
  "state (snd (case_HALT_DL m h t)) = state t"
  "dlsw_wfd_sent (snd (case_HALT_DL m h t)) = dlsw_wfd_sent t"
  by (simp_all add: case_HALT_DL_def Let_def memcpy_apply slice_4)

text \<open>
  C6, as the code has it. A HALT\_DL message whose header length field covers the
  control header fields the reply sets (more than \<open>0x26\<close>; a control header is 72 bytes) is processed in any
  state. After the flow control step, exactly one message goes out on the DLSw socket:
  the header-only reply, as long as the received header, with type DL\_HALTED,
  direction origin (\<open>0x02\<close>), message length 0, and the origin correlator and origin port
  id of the request in the remote fields; it is the only DL\_HALTED among the messages
  sent in the step. Exactly one byte goes out on the RS-232 signal socket, \<open>~RTS\<close>, whose
  RTS bit is low. The circuit state is unchanged.
\<close>

theorem halt_dl_reply:
  assumes "is_HALT_DL m" and "HDR_DIR < unat (m HDR_HLEN)"
  shows "sent_since (snd (flow_ctl m s)) (main_recv m s)
           = [slice (DLSw_wbuf (main_recv m s)) 0 (unat (m HDR_HLEN))]
       \<and> length (filter is_DL_HALTED (sent_since s (main_recv m s))) = 1
       \<and> DLSw_wbuf (main_recv m s) HDR_MTYP = DL_HALTED
       \<and> DLSw_wbuf (main_recv m s) HDR_DIR = DIR_ORG
       \<and> DLSw_wbuf (main_recv m s) HDR_MLEN = 0 \<and> DLSw_wbuf (main_recv m s) (HDR_MLEN + 1) = 0
       \<and> slice (DLSw_wbuf (main_recv m s)) HDR_RDLC 4 = slice m HDR_ODLC 4
       \<and> slice (DLSw_wbuf (main_recv m s)) HDR_RDPID 4 = slice m HDR_ODPID 4
       \<and> rs232_fd_sent (main_recv m s) = rs232_fd_sent s @ [NOT RTS]
       \<and> (NOT RTS :: u8) AND RTS = 0
       \<and> state (main_recv m s) = state s"
proof -
  let ?t = "snd (flow_ctl m s)"
  let ?r = "slice (DLSw_wbuf (main_recv m s)) 0 (unat (m HDR_HLEN))"
  note p = proc_DLSw_HALT[OF assms(1), of s]
  note f = case_HALT_DL_fields[of m "m HDR_HLEN" ?t]
  have fp: "fst (proc_DLSw m s) = uint (m HDR_HLEN)"
    using f(7) by (simp add: p)
  have "uint (m HDR_HLEN) = int (unat (m HDR_HLEN))" by (rule uint_nat)
  then have "uint (m HDR_HLEN) \<noteq> 0" using assms(2) by arith
  then have n: "fst (proc_DLSw m s) \<noteq> 0" "nat (fst (proc_DLSw m s)) = unat (m HDR_HLEN)"
    by (simp_all add: fp)
  have w: "DLSw_wbuf (main_recv m s) = DLSw_wbuf (snd (case_HALT_DL m (m HDR_HLEN) ?t))"
    by (simp add: main_recv_other p)
  have sent: "dlsw_wfd_sent (main_recv m s) = dlsw_wfd_sent ?t @ [?r]"
    using n f(10) by (simp add: main_recv_sent main_recv_other p)
  obtain xs where xs: "dlsw_wfd_sent ?t = dlsw_wfd_sent s @ xs" "\<forall>x \<in> set xs. is_IFCM_RPT x"
    using flow_ctl_sent_cases[of m s] by blast
  have r: "is_DL_HALTED ?r"
    using assms(2) f(1) by (simp add: is_DL_HALTED_def slice_nth w)
  have "filter is_DL_HALTED xs = []"
    using xs(2) IFCM_not_DL_HALTED by (auto simp add: filter_empty_conv)
  then have one: "length (filter is_DL_HALTED (sent_since s (main_recv m s))) = 1"
    using r by (simp add: sent_since_def sent xs(1))
  have first: "sent_since ?t (main_recv m s) = [?r]"
    by (simp add: sent_since_def sent)
  show ?thesis
    using first one f by (simp add: w main_recv_other p flow_ctl_windows)
qed

lemma halt_msg_simps:
  "is_HALT_DL halt_msg" "unat (halt_msg HDR_HLEN) = 72" "unat (halt_msg (Suc 0)) = 72"
  "slice halt_msg HDR_ODLC 4 = [0x01, 0x02, 0x03, 0x04]"
  "slice halt_msg HDR_ODPID 4 = [0x0A, 0x0B, 0x0C, 0x0D]"
  by (simp_all add: is_HALT_DL_def halt_msg_def memcpy_apply arr_def CONTROL_MSG_Hdr_def slice_4)

theorem halt_dl_reply_witness:
  "is_HALT_DL halt_msg \<and> HDR_DIR < unat (halt_msg HDR_HLEN)
   \<and> length (filter is_DL_HALTED (sent_since dlsw_init (main_recv halt_msg dlsw_init))) = 1
   \<and> slice (DLSw_wbuf (main_recv halt_msg dlsw_init)) HDR_RDLC 4 = [0x01, 0x02, 0x03, 0x04]
   \<and> slice (DLSw_wbuf (main_recv halt_msg dlsw_init)) HDR_RDPID 4 = [0x0A, 0x0B, 0x0C, 0x0D]
   \<and> rs232_fd_sent (main_recv halt_msg dlsw_init) = [0xF7]
   \<and> state (main_recv halt_msg dlsw_init) = DISCONNECTED"
proof -
  have h: "is_HALT_DL halt_msg" "HDR_DIR < unat (halt_msg HDR_HLEN)"
    by (simp_all add: halt_msg_simps)
  have d: "rs232_fd_sent dlsw_init = []" "state dlsw_init = DISCONNECTED"
    by (simp_all add: dlsw_init_def)
  from halt_dl_reply[of halt_msg dlsw_init] h d show ?thesis
    by (simp add: halt_msg_simps)
qed

text \<open>
  The claim as stated, for every HALT\_DL, fails when the header length byte of the
  message is 0: \<^verbatim>\<open>proc_DLSw\<close> returns 0, so \<^verbatim>\<open>main\<close> sends nothing on the DLSw socket and
  there is no DL\_HALTED, while the byte \<open>~RTS\<close> still goes out on the signal socket.
\<close>

theorem halt_dl_no_reply_counterexample:
  "is_HALT_DL (ctl_msg 0 HALT_DL 0)
   \<and> sent_since dlsw_init (main_recv (ctl_msg 0 HALT_DL 0) dlsw_init) = []
   \<and> length (filter is_DL_HALTED (sent_since dlsw_init (main_recv (ctl_msg 0 HALT_DL 0) dlsw_init))) = 0
   \<and> rs232_fd_sent (main_recv (ctl_msg 0 HALT_DL 0) dlsw_init) = [0xF7]"
proof -
  let ?m = "ctl_msg 0 HALT_DL 0"
  let ?t = "snd (flow_ctl ?m dlsw_init)"
  have h: "is_HALT_DL ?m" by (simp add: is_HALT_DL_def)
  note p = proc_DLSw_HALT[OF h, of dlsw_init]
  note f = case_HALT_DL_fields[of ?m "?m HDR_HLEN" ?t]
  have l: "?m HDR_HLEN = 0" "?m (Suc 0) = 0" by (simp_all add: ctl_msg_def arr_def)
  have z: "fst (proc_DLSw ?m dlsw_init) = 0" using f(7) by (simp add: p l)
  have t: "dlsw_wfd_sent ?t = []" "rs232_fd_sent ?t = []"
    by (simp_all add: flow_ctl_def dlsw_init_def Let_def)
  have s: "dlsw_wfd_sent (main_recv ?m dlsw_init) = []"
    using z f(10) t(1) by (simp add: main_recv_sent p)
  have r: "rs232_fd_sent (main_recv ?m dlsw_init) = [0xF7]"
    using f(8) t(2) by (simp add: main_recv_other p)
  show ?thesis using h s r by (simp add: sent_since_def)
qed
section \<open>Line Interface Base: properties\<close>

subsection \<open>Basic facts\<close>

declare ShiftLeft_loop.simps [simp del]

lemma line_upd_simps [simp]:
  "LIBline (line_upd k f s) = (LIBline s)(k := f (LIBline s k))"
  "net (line_upd k f s) = net s" "RS232 (line_upd k f s) = RS232 s"
  "RS232r (line_upd k f s) = RS232r s" "RS232x (line_upd k f s) = RS232x s"
  by (simp_all add: line_upd_def)

lemma net_upd_simps [simp]:
  "net (net_upd k f s) = (net s)(k := f (net s k))"
  "LIBline (net_upd k f s) = LIBline s" "RS232 (net_upd k f s) = RS232 s"
  "RS232r (net_upd k f s) = RS232r s" "RS232x (net_upd k f s) = RS232x s"
  by (simp_all add: net_upd_def)

lemma RS232_upd_simps [simp]:
  "RS232 (RS232_upd k f s) = (RS232 s)(k := f (RS232 s k))"
  "LIBline (RS232_upd k f s) = LIBline s" "net (RS232_upd k f s) = net s"
  "RS232r (RS232_upd k f s) = RS232r s" "RS232x (RS232_upd k f s) = RS232x s"
  by (simp_all add: RS232_upd_def)

lemma ShiftLeft_loop_apply:
  "0 < i \<Longrightarrow> ShiftLeft_loop i len b j = (if i \<le> j + 1 \<and> int j + 1 < len then b (j + 1) else b j)"
proof (induction i len b rule: ShiftLeft_loop.induct)
  case (1 i len buffer)
  show ?case
  proof (cases "int i < len")
    case True
    have "ShiftLeft_loop i len buffer j = ShiftLeft_loop (i + 1) len (buffer(i - 1 := buffer i)) j"
      using True by (subst ShiftLeft_loop.simps) simp
    also have "\<dots> = (if i + 1 \<le> j + 1 \<and> int j + 1 < len
                      then (buffer(i - 1 := buffer i)) (j + 1) else (buffer(i - 1 := buffer i)) j)"
      by (rule "1.IH"[OF True]) simp
    also have "\<dots> = (if i \<le> j + 1 \<and> int j + 1 < len then buffer (j + 1) else buffer j)"
      using True "1.prems" by auto
    finally show ?thesis .
  next
    case False
    then show ?thesis by (subst ShiftLeft_loop.simps) auto
  qed
qed

lemma ShiftLeft_bytes:
  assumes "0 < n"
  shows "slice (fst (ShiftLeft b (int n))) 0 (n - 1) = tl (slice b 0 n)"
proof (rule nth_equalityI)
  show "length (slice (fst (ShiftLeft b (int n))) 0 (n - 1)) = length (tl (slice b 0 n))"
    by simp
next
  fix i assume "i < length (slice (fst (ShiftLeft b (int n))) 0 (n - 1))"
  then have i: "i < n - 1" by simp
  then have "tl (slice b 0 n) ! i = slice b 0 n ! Suc i" by (simp add: nth_tl)
  also have "\<dots> = b (Suc i)" using i by (simp add: slice_nth)
  finally have r: "tl (slice b 0 n) ! i = b (Suc i)" .
  have "int i + 1 < int n" using i by arith
  then have "fst (ShiftLeft b (int n)) i = b (Suc i)"
    by (simp add: ShiftLeft_def ShiftLeft_loop_apply)
  then show "slice (fst (ShiftLeft b (int n))) 0 (n - 1) ! i = tl (slice b 0 n) ! i"
    using i r by (simp add: slice_nth)
qed


subsection \<open>C10: peeking at and taking a received byte\<close>

lemma proc_LIBrdata_peek:
  assumes "LIBrlen (LIBline s line) \<noteq> 0" and "st = 0x4 \<or> st = 0x5"
  shows "proc_LIBrdata c st line s = (1, LIB_rbuf (LIBline s line) 0, s)"
  using assms by (auto simp add: proc_LIBrdata_def Let_def word_greater_zero_iff)

lemma proc_LIBrdata_take:
  assumes "LIBrlen (LIBline s line) \<noteq> 0" and "\<not> (st = 0x4 \<or> st = 0x5)"
  shows "proc_LIBrdata c st line s =
           ((if LIBrlen (LIBline s line) = 1 then 2 else 1),
            LIB_rbuf (LIBline s line) 0,
            line_upd line (\<lambda>l. l\<lparr>LIB_rbuf := fst (ShiftLeft (LIB_rbuf l) (uint (LIBrlen l))),
                                   LIBrlen := LIBrlen l - 1\<rparr>) s)"
  using assms
  by (auto simp add: proc_LIBrdata_def Let_def word_greater_zero_iff ShiftLeft_def line_upd_def)

lemma ReadLIB_nothing:
  assumes "d327x_fd (LIBline s line) \<le> 0 \<or> \<not> d_peer (net s line) \<or> d_pending (net s line) = []"
  shows "LIBrlen (LIBline (snd (ReadLIB line s)) line) = 0"
  using assms by (auto simp add: ReadLIB_def Let_def IsSocketConnected_def)

text \<open>
  C10. \<^verbatim>\<open>proc_LIBrdata\<close> on a line whose receive buffer is not empty: in scanner state 4
  or 5 it returns 1 and the first byte of the buffer and changes nothing, so that the
  next call sees the same byte; in every other state it returns the first byte, the
  buffered bytes become the former ones without the first, \<open>LIBrlen\<close> is one less,
  nothing but \<open>LIB_rbuf\<close> and \<open>LIBrlen\<close> of this line changes, and the return code is 2
  if that was the last byte and 1 otherwise. On a line whose buffer is empty and on
  which \<^verbatim>\<open>ReadLIB\<close> finds nothing (no connection, or no byte waiting) it returns 0 and
  leaves the caller's character as it was.
\<close>

theorem proc_LIBrdata_peek_or_take:
  "(LIBrlen (LIBline s line) \<noteq> 0 \<and> (st = 0x4 \<or> st = 0x5) \<longrightarrow>
      proc_LIBrdata c st line s = (1, LIB_rbuf (LIBline s line) 0, s))
   \<and> (LIBrlen (LIBline s line) \<noteq> 0 \<and> \<not> (st = 0x4 \<or> st = 0x5) \<longrightarrow>
      fst (proc_LIBrdata c st line s) = (if LIBrlen (LIBline s line) = 1 then 2 else 1)
      \<and> fst (snd (proc_LIBrdata c st line s)) = LIB_rbuf (LIBline s line) 0
      \<and> rbuf_bytes (snd (snd (proc_LIBrdata c st line s))) line = tl (rbuf_bytes s line)
      \<and> LIBrlen (LIBline (snd (snd (proc_LIBrdata c st line s))) line) = LIBrlen (LIBline s line) - 1
      \<and> snd (snd (proc_LIBrdata c st line s))
          = line_upd line
              (\<lambda>l. l\<lparr>LIB_rbuf := LIB_rbuf (LIBline (snd (snd (proc_LIBrdata c st line s))) line),
                     LIBrlen := LIBrlen l - 1\<rparr>) s)
   \<and> (LIBrlen (LIBline s line) = 0
       \<and> (d327x_fd (LIBline s line) \<le> 0 \<or> \<not> d_peer (net s line) \<or> d_pending (net s line) = []) \<longrightarrow>
      fst (proc_LIBrdata c st line s) = 0 \<and> fst (snd (proc_LIBrdata c st line s)) = c)"
proof (intro conjI impI)
  assume a: "LIBrlen (LIBline s line) \<noteq> 0 \<and> (st = 0x4 \<or> st = 0x5)"
  then show "proc_LIBrdata c st line s = (1, LIB_rbuf (LIBline s line) 0, s)"
    using proc_LIBrdata_peek[of s line st c] by blast
next
  assume a: "LIBrlen (LIBline s line) \<noteq> 0 \<and> \<not> (st = 0x4 \<or> st = 0x5)"
  then have ne: "LIBrlen (LIBline s line) \<noteq> 0" and st: "\<not> (st = 0x4 \<or> st = 0x5)" by auto
  note t = proc_LIBrdata_take[OF ne st, of c]
  let ?n = "unat (LIBrlen (LIBline s line))"
  have n: "0 < ?n" using ne by (simp add: unat_gt_0)
  have m: "unat (LIBrlen (LIBline s line) - 1) = ?n - 1" using ne by (rule unat_minus_one)
  show "fst (proc_LIBrdata c st line s) = (if LIBrlen (LIBline s line) = 1 then 2 else 1)"
    by (simp add: t)
  show "fst (snd (proc_LIBrdata c st line s)) = LIB_rbuf (LIBline s line) 0"
    by (simp add: t)
  show "rbuf_bytes (snd (snd (proc_LIBrdata c st line s))) line = tl (rbuf_bytes s line)"
    using ShiftLeft_bytes[OF n, of "LIB_rbuf (LIBline s line)"]
    by (simp add: t rbuf_bytes_def m)
  show "LIBrlen (LIBline (snd (snd (proc_LIBrdata c st line s))) line) = LIBrlen (LIBline s line) - 1"
    by (simp add: t)
  show "snd (snd (proc_LIBrdata c st line s))
          = line_upd line
              (\<lambda>l. l\<lparr>LIB_rbuf := LIB_rbuf (LIBline (snd (snd (proc_LIBrdata c st line s))) line),
                     LIBrlen := LIBrlen l - 1\<rparr>) s"
    by (simp add: t line_upd_def)
next
  assume a: "LIBrlen (LIBline s line) = 0
       \<and> (d327x_fd (LIBline s line) \<le> 0 \<or> \<not> d_peer (net s line) \<or> d_pending (net s line) = [])"
  then have z: "LIBrlen (LIBline (snd (ReadLIB line s)) line) = 0"
    using ReadLIB_nothing[of s line] by blast
  show "fst (proc_LIBrdata c st line s) = 0" using a z by (simp add: proc_LIBrdata_def Let_def)
  show "fst (snd (proc_LIBrdata c st line s)) = c" using a z by (simp add: proc_LIBrdata_def Let_def)
qed

lemma receiving_simps:
  "LIBrlen (LIBline receiving 0) = 2" "LIB_rbuf (LIBline receiving 0) 0 = 0x7E"
  "rbuf_bytes receiving 0 = [0x7E, 0xC1]"
  "LIBrlen (LIBline boot 0) = 0" "d327x_fd (LIBline boot 0) = 0"
proof -
  have n: "unat (LIBrlen (LIBline receiving 0)) = 2" by (simp add: receiving_def)
  have b: "slice (LIB_rbuf (LIBline receiving 0)) 0 2 = [0x7E, 0xC1]"
    by (simp add: receiving_def slice_def arr_def upt_rec numeral_eq_Suc)
  show "rbuf_bytes receiving 0 = [0x7E, 0xC1]" unfolding rbuf_bytes_def n by (rule b)
qed (simp_all add: receiving_def boot_def arr_def)

theorem proc_LIBrdata_peek_or_take_witness:
  "LIBrlen (LIBline receiving 0) \<noteq> 0
   \<and> proc_LIBrdata 0 0x5 0 receiving = (1, 0x7E, receiving)
   \<and> fst (proc_LIBrdata 0 0x6 0 receiving) = 1
   \<and> fst (snd (proc_LIBrdata 0 0x6 0 receiving)) = 0x7E
   \<and> rbuf_bytes (snd (snd (proc_LIBrdata 0 0x6 0 receiving))) 0 = [0xC1]
   \<and> LIBrlen (LIBline (snd (snd (proc_LIBrdata 0 0x6 0 receiving))) 0) = 1
   \<and> fst (proc_LIBrdata 0 0x6 0 (snd (snd (proc_LIBrdata 0 0x6 0 receiving)))) = 2
   \<and> LIBrlen (LIBline boot 0) = 0 \<and> d327x_fd (LIBline boot 0) \<le> 0
   \<and> fst (proc_LIBrdata 0x55 0x6 0 boot) = 0
   \<and> fst (snd (proc_LIBrdata 0x55 0x6 0 boot)) = 0x55"
proof -
  let ?r = "snd (snd (proc_LIBrdata 0 0x6 0 receiving))"
  have a: "proc_LIBrdata 0 0x5 0 receiving = (1, 0x7E, receiving)"
    using proc_LIBrdata_peek_or_take[of receiving 0 "0x5" 0] by (simp add: receiving_simps)
  have b: "fst (proc_LIBrdata 0 0x6 0 receiving) = 1"
    "fst (snd (proc_LIBrdata 0 0x6 0 receiving)) = 0x7E"
    "rbuf_bytes ?r 0 = [0xC1]"
    "LIBrlen (LIBline ?r 0) = 1"
    using proc_LIBrdata_peek_or_take[of receiving 0 "0x6" 0] by (simp_all add: receiving_simps)
  have c: "fst (proc_LIBrdata 0 0x6 0 ?r) = 2"
    using proc_LIBrdata_peek_or_take[of ?r 0 "0x6" 0] b(4) by simp
  have d: "fst (proc_LIBrdata 0x55 0x6 0 boot) = 0" "fst (snd (proc_LIBrdata 0x55 0x6 0 boot)) = 0x55"
    using proc_LIBrdata_peek_or_take[of boot 0 "0x6" "0x55"] by (simp_all add: receiving_simps)
  show ?thesis using a b c d by (simp add: receiving_simps)
qed

subsection \<open>C9: the signals of a line without connection\<close>

lemma fold_RS232_zero:
  "RS232 (fold (\<lambda>j. RS232_upd j (\<lambda>r. 0x00)) [0 ..< n] s) j = (if j < n then 0 else RS232 s j)"
  by (induction n arbitrary: s) (auto simp add: less_Suc_eq)

lemma LIB_thread_init_RS232: "j < n \<Longrightarrow> RS232 (LIB_thread_init n s) j = 0"
  by (simp add: LIB_thread_init_def Let_def fold_RS232_zero)

lemma clear_DCD_DSR_RI:
  "(r AND NOT (DCD OR DSR OR RI)) AND (DCD OR DSR OR RI) = 0"
  "(r AND NOT (DCD OR DSR OR RI)) AND (CTS OR RTS OR DTR) = r AND (CTS OR RTS OR DTR)"
  by (simp_all add: and.assoc)

lemma ReadLIB_lost:
  assumes "d327x_fd (LIBline s k) > 0" and "\<not> d_peer (net s k)"
  shows "d327x_fd (LIBline (snd (ReadLIB k s)) k) = 0"
    and "RS232 (snd (ReadLIB k s)) k = RS232 s k AND NOT (DCD OR DSR OR RI)"
    and "fst (ReadLIB k s) = - 1"
  using assms by (simp_all add: ReadLIB_def Let_def IsSocketConnected_def)


lemma keep_CTS_DTR:
  "(r OR DSR) AND (CTS OR DTR) = r AND (CTS OR DTR)"
  "(r AND NOT DSR) AND (CTS OR DTR) = r AND (CTS OR DTR)"
  "(r AND NOT RTS) AND (CTS OR DTR) = r AND (CTS OR DTR)"
  "(r AND NOT (DCD OR DSR OR RI)) AND (CTS OR DTR) = r AND (CTS OR DTR)"
  by (simp_all add: and.assoc bit.conj_disj_distrib2)

lemma sig_rule_simps [simp]:
  "LIBline (sig_DSR_on k s) = LIBline s" "net (sig_DSR_on k s) = net s"
  "LIBline (sig_RTS_remote k s) = LIBline s" "net (sig_RTS_remote k s) = net s"
  "LIBline (sig_DSR_off k s) = LIBline s" "net (sig_DSR_off k s) = net s"
  "LIBline (sig_RTS_off k s) = LIBline s" "net (sig_RTS_off k s) = net s"
  "RS232 (sig_RTS_remote k s) = RS232 s"
  by (simp_all add: sig_DSR_on_def sig_RTS_remote_def sig_DSR_off_def sig_RTS_off_def)

lemma sig_rule_RS232:
  "RS232 (sig_DSR_on k s) k
     = (if RS232 s k AND DTR \<noteq> 0 \<and> \<not> (RS232 s k AND DSR \<noteq> 0) then RS232 s k OR DSR else RS232 s k)"
  "RS232 (sig_DSR_off k s) k
     = (if \<not> (RS232 s k AND DTR \<noteq> 0) \<and> RS232 s k AND DSR \<noteq> 0 then RS232 s k AND NOT DSR else RS232 s k)"
  "RS232 (sig_RTS_off k s) k
     = (if \<not> (RS232 s k AND DTR \<noteq> 0) \<and> RS232 s k AND RTS \<noteq> 0 then RS232 s k AND NOT RTS else RS232 s k)"
  by (simp_all add: sig_DSR_on_def sig_DSR_off_def sig_RTS_off_def)

lemma sig_rules_keeps: "sig_rules r AND (CTS OR DTR) = r AND (CTS OR DTR)"
proof -
  let ?r1 = "if r AND DTR \<noteq> 0 \<and> \<not> (r AND DSR \<noteq> 0) then r OR DSR else r"
  let ?r2 = "if \<not> (?r1 AND DTR \<noteq> 0) \<and> ?r1 AND DSR \<noteq> 0 then ?r1 AND NOT DSR else ?r1"
  have 1: "?r1 AND (CTS OR DTR) = r AND (CTS OR DTR)"
    by (simp only: keep_CTS_DTR if_distrib[of "\<lambda>x. x AND (CTS OR DTR)"] if_cancel)
  have 2: "?r2 AND (CTS OR DTR) = ?r1 AND (CTS OR DTR)"
    by (simp only: keep_CTS_DTR if_distrib[of "\<lambda>x. x AND (CTS OR DTR)"] if_cancel)
  have 3: "sig_rules r AND (CTS OR DTR) = ?r2 AND (CTS OR DTR)"
    unfolding sig_rules_def Let_def
    by (simp only: keep_CTS_DTR if_distrib[of "\<lambda>x. x AND (CTS OR DTR)"] if_cancel)
  show ?thesis using 1 2 3 by simp
qed

lemma ReadSig_lost:
  assumes "s327x_fd (LIBline s k) > 0" and "\<not> s_peer (net s k)"
  shows "d327x_fd (LIBline (ReadSig k s) k) = 0"
    and "s327x_fd (LIBline (ReadSig k s) k) = 0"
    and "RS232 (ReadSig k s) k = sig_rules (RS232 s k) AND NOT (DCD OR DSR OR RI)"
  using assms
  by (simp_all add: ReadSig_def Let_def IsSocketConnected_def sig_rules_def sig_rule_RS232)

text \<open>
  C9. At start-up \<^verbatim>\<open>LIB_thread\<close> sets the signal byte of every line to 0. When
  \<^verbatim>\<open>ReadLIB\<close> finds the data connection of a line lost it resets \<open>d327x_fd\<close>, and when
  \<^verbatim>\<open>ReadSig\<close> finds the signal connection lost it resets both descriptors; in both
  cases DCD, DSR and RI are low afterwards, while CTS and DTR (and, in \<^verbatim>\<open>ReadLIB\<close>,
  RTS) keep the value they had: the signal byte need not be 0.
\<close>

theorem no_connection_signals:
  "(j < n \<longrightarrow> RS232 (LIB_thread_init n s) j = 0)
   \<and> (d327x_fd (LIBline s k) > 0 \<and> \<not> d_peer (net s k) \<longrightarrow>
        d327x_fd (LIBline (snd (ReadLIB k s)) k) = 0
        \<and> RS232 (snd (ReadLIB k s)) k AND (DCD OR DSR OR RI) = 0
        \<and> RS232 (snd (ReadLIB k s)) k AND (CTS OR RTS OR DTR) = RS232 s k AND (CTS OR RTS OR DTR))
   \<and> (s327x_fd (LIBline s k) > 0 \<and> \<not> s_peer (net s k) \<longrightarrow>
        d327x_fd (LIBline (ReadSig k s) k) = 0 \<and> s327x_fd (LIBline (ReadSig k s) k) = 0
        \<and> RS232 (ReadSig k s) k AND (DCD OR DSR OR RI) = 0
        \<and> RS232 (ReadSig k s) k AND (CTS OR DTR) = RS232 s k AND (CTS OR DTR))"
proof (intro conjI impI)
  assume "j < n"
  then show "RS232 (LIB_thread_init n s) j = 0" by (rule LIB_thread_init_RS232)
next
  assume a: "d327x_fd (LIBline s k) > 0 \<and> \<not> d_peer (net s k)"
  then have l: "d327x_fd (LIBline (snd (ReadLIB k s)) k) = 0"
    "RS232 (snd (ReadLIB k s)) k = RS232 s k AND NOT (DCD OR DSR OR RI)"
    using ReadLIB_lost[of s k] by blast+
  show "d327x_fd (LIBline (snd (ReadLIB k s)) k) = 0" by (rule l(1))
  show "RS232 (snd (ReadLIB k s)) k AND (DCD OR DSR OR RI) = 0"
    unfolding l(2) by (rule clear_DCD_DSR_RI(1))
  show "RS232 (snd (ReadLIB k s)) k AND (CTS OR RTS OR DTR) = RS232 s k AND (CTS OR RTS OR DTR)"
    unfolding l(2) by (rule clear_DCD_DSR_RI(2))
next
  assume a: "s327x_fd (LIBline s k) > 0 \<and> \<not> s_peer (net s k)"
  then have l: "d327x_fd (LIBline (ReadSig k s) k) = 0" "s327x_fd (LIBline (ReadSig k s) k) = 0"
    "RS232 (ReadSig k s) k = sig_rules (RS232 s k) AND NOT (DCD OR DSR OR RI)"
    using ReadSig_lost[of s k] by blast+
  show "d327x_fd (LIBline (ReadSig k s) k) = 0" by (rule l(1))
  show "s327x_fd (LIBline (ReadSig k s) k) = 0" by (rule l(2))
  show "RS232 (ReadSig k s) k AND (DCD OR DSR OR RI) = 0"
    unfolding l(3) by (rule clear_DCD_DSR_RI(1))
  show "RS232 (ReadSig k s) k AND (CTS OR DTR) = RS232 s k AND (CTS OR DTR)"
    unfolding l(3) keep_CTS_DTR(4) by (rule sig_rules_keeps)
qed

lemma lost_simps:
  "d327x_fd (LIBline lost_data 0) = 5" "d_peer (net lost_data 0) = False"
  "RS232 lost_data 0 = 0x74"
  "s327x_fd (LIBline lost_signal 0) = 6" "s_peer (net lost_signal 0) = False"
  by (simp_all add: lost_data_def lost_signal_def boot_def line_upd_def net_upd_def)

theorem no_connection_signals_witness:
  "(1::nat) < 2 \<and> RS232 (LIB_thread_init 2 lost_data) 1 = 0
   \<and> d327x_fd (LIBline lost_data 0) > 0 \<and> \<not> d_peer (net lost_data 0)
   \<and> d327x_fd (LIBline (snd (ReadLIB 0 lost_data)) 0) = 0
   \<and> RS232 (snd (ReadLIB 0 lost_data)) 0 AND (DCD OR DSR OR RI) = 0
   \<and> s327x_fd (LIBline lost_signal 0) > 0 \<and> \<not> s_peer (net lost_signal 0)
   \<and> s327x_fd (LIBline (ReadSig 0 lost_signal) 0) = 0
   \<and> RS232 (ReadSig 0 lost_signal) 0 AND (DCD OR DSR OR RI) = 0"
  using no_connection_signals[of 1 2 lost_data 0]
    no_connection_signals[of 1 2 lost_signal 0]
  by (simp add: lost_simps)

text \<open>
  The line of \<open>lost_data\<close> has DTR high when its data connection is found lost;
  afterwards it has no data connection and its signal byte is DTR, not 0.
\<close>

theorem signals_after_loss_counterexample:
  "d327x_fd (LIBline lost_data 0) > 0
   \<and> d327x_fd (LIBline (snd (ReadLIB 0 lost_data)) 0) = 0
   \<and> RS232 (snd (ReadLIB 0 lost_data)) 0 = DTR
   \<and> RS232 (snd (ReadLIB 0 lost_data)) 0 \<noteq> 0"
proof -
  have a: "d327x_fd (LIBline lost_data 0) > 0" "\<not> d_peer (net lost_data 0)"
    by (simp_all add: lost_simps)
  show ?thesis
    using ReadLIB_lost(1,2)[OF a] a(1) by (simp add: lost_simps)
qed

section \<open>Communication scanner: properties\<close>

subsection \<open>C8: the level 2 gate\<close>

lemma suspended_states:
  assumes "svc_req_L2 s = ON"
  shows "pcf_6 line s = s" "pcf_7 line s = s" "pcf_8 line s = s" "pcf_9 line s = s"
    "pcf_A line s = s"
  using assms by (simp_all add: pcf_6_def pcf_7_def pcf_8_def pcf_9_def pcf_A_def L2_active_def)

lemma pcf_D_bsc:
  assumes "icw_lcd s line = 0xC"
  shows "icw_pcf_nxt (pcf_D line s) line = 0x5" "CS2_req_L2_int (pcf_D line s) = ON"
  using assms by (simp_all add: pcf_D_def Let_def)

text \<open>
  C8. With \<open>svc_req_L2\<close> on, a scan cycle dispatched in one of the PCF states 6, 7, 8,
  9 and A changes nothing at all. State D has no such gate: on a BSC line (LCD C) a
  cycle dispatched in state D sets the next PCF to 5 and raises the scanner's level 2
  interrupt request, whatever \<open>svc_req_L2\<close> is.
\<close>

theorem L2_gate_states:
  "(svc_req_L2 s = ON \<and> icw_pcf s line \<in> {0x6, 0x7, 0x8, 0x9, 0xA} \<longrightarrow> CS2_dispatch line s = s)
   \<and> (icw_pcf s line = 0xD \<and> icw_lcd s line = 0xC \<longrightarrow>
        icw_pcf_nxt (CS2_dispatch line s) line = 0x5 \<and> CS2_req_L2_int (CS2_dispatch line s) = ON)"
proof (intro conjI impI)
  assume a: "svc_req_L2 s = ON \<and> icw_pcf s line \<in> {0x6, 0x7, 0x8, 0x9, 0xA}"
  then have on: "svc_req_L2 s = ON" by simp
  from a show "CS2_dispatch line s = s"
    by (auto simp add: CS2_dispatch_def suspended_states[OF on])
next
  assume a: "icw_pcf s line = 0xD \<and> icw_lcd s line = 0xC"
  then have p: "icw_pcf s line = 0xD" and l: "icw_lcd s line = 0xC" by auto
  have d: "CS2_dispatch line s = pcf_D line s" using p by (simp add: CS2_dispatch_def)
  show "icw_pcf_nxt (CS2_dispatch line s) line = 0x5" unfolding d by (rule pcf_D_bsc(1)[OF l])
  show "CS2_req_L2_int (CS2_dispatch line s) = ON" unfolding d by (rule pcf_D_bsc(2)[OF l])
qed

lemma bsc_D_simps:
  "svc_req_L2 bsc_D = ON" "icw_pcf bsc_D 0 = 0xD" "icw_lcd bsc_D 0 = 0xC"
  "icw_pcf_nxt bsc_D 0 = 0xD" "CS2_req_L2_int bsc_D = OFF"
  by (simp_all add: bsc_D_def boot_def)

theorem L2_gate_states_witness:
  "svc_req_L2 (bsc_D\<lparr>icw_pcf := (\<lambda>_. 0x9)\<rparr>) = ON
   \<and> icw_pcf (bsc_D\<lparr>icw_pcf := (\<lambda>_. 0x9)\<rparr>) 0 \<in> {0x6, 0x7, 0x8, 0x9, 0xA}
   \<and> CS2_dispatch 0 (bsc_D\<lparr>icw_pcf := (\<lambda>_. 0x9)\<rparr>) = bsc_D\<lparr>icw_pcf := (\<lambda>_. 0x9)\<rparr>
   \<and> icw_pcf bsc_D 0 = 0xD \<and> icw_lcd bsc_D 0 = 0xC
   \<and> icw_pcf_nxt (CS2_dispatch 0 bsc_D) 0 = 0x5 \<and> CS2_req_L2_int (CS2_dispatch 0 bsc_D) = ON"
  using L2_gate_states[of "bsc_D\<lparr>icw_pcf := (\<lambda>_. 0x9)\<rparr>" 0] L2_gate_states[of bsc_D 0]
  by (simp add: bsc_D_simps)

text \<open>
  On the BSC line of \<open>bsc_D\<close>, with \<open>svc_req_L2\<close> on, the cycle in state D changes the
  next PCF from D to 5 and raises \<open>CS2_req_L2_int\<close>.
\<close>

theorem L2_gate_state_D_counterexample:
  "svc_req_L2 bsc_D = ON \<and> icw_pcf bsc_D 0 = 0xD
   \<and> icw_pcf_nxt bsc_D 0 = 0xD \<and> icw_pcf_nxt (CS2_dispatch 0 bsc_D) 0 = 0x5
   \<and> CS2_req_L2_int bsc_D = OFF \<and> CS2_req_L2_int (CS2_dispatch 0 bsc_D) = ON
   \<and> CS2_dispatch 0 bsc_D \<noteq> bsc_D"
proof -
  have d: "CS2_dispatch 0 bsc_D = pcf_D 0 bsc_D"
    by (simp add: CS2_dispatch_def bsc_D_simps)
  have n: "icw_pcf_nxt (CS2_dispatch 0 bsc_D) 0 = 0x5" "CS2_req_L2_int (CS2_dispatch 0 bsc_D) = ON"
    unfolding d by (rule pcf_D_bsc[OF bsc_D_simps(3)])+
  have "CS2_dispatch 0 bsc_D \<noteq> bsc_D"
  proof
    assume "CS2_dispatch 0 bsc_D = bsc_D"
    then have "CS2_req_L2_int (CS2_dispatch 0 bsc_D) = CS2_req_L2_int bsc_D" by simp
    then show False using n(2) by (simp add: bsc_D_simps)
  qed
  then show ?thesis using n by (simp add: bsc_D_simps)
qed

subsection \<open>C7: the end of a transmission\<close>

lemma CS2_adopt_simps:
  "LIBline (CS2_adopt line s) = LIBline s" "net (CS2_adopt line s) = net s"
  "icw_lcd (CS2_adopt line s) = icw_lcd s"
  "icw_pcf (CS2_adopt line s) line = icw_pcf_nxt s line"
  "icw_pcf_nxt s line \<noteq> 0x0 \<Longrightarrow> icw_lne_stat (CS2_adopt line s) = icw_lne_stat s"
  "icw_pcf s line \<noteq> icw_pcf_nxt s line \<Longrightarrow> icw_pcf_prev (CS2_adopt line s) line = icw_pcf s line"
  by (simp_all add: CS2_adopt_def Let_def)

lemma pcf_D_keeps:
  "LIBline (pcf_D line s) = LIBline s" "net (pcf_D line s) = net s"
  "icw_lne_stat (pcf_D line s) = icw_lne_stat s" "icw_pcf (pcf_D line s) = icw_pcf s"
  by (simp_all add: pcf_D_def Let_def)

lemma CS2_scan_D:
  assumes "icw_pcf_nxt s line = 0xD"
  shows "LIBline (CS2_scan line s) = LIBline s" "net (CS2_scan line s) = net s"
    "icw_lne_stat (CS2_scan line s) = icw_lne_stat s" "icw_pcf (CS2_scan line s) line = 0xD"
proof -
  have d: "CS2_scan line s = pcf_D line (CS2_adopt line s)"
    using assms by (simp add: CS2_scan_def CS2_dispatch_def CS2_adopt_simps)
  show "LIBline (CS2_scan line s) = LIBline s" "net (CS2_scan line s) = net s"
    "icw_lne_stat (CS2_scan line s) = icw_lne_stat s" "icw_pcf (CS2_scan line s) line = 0xD"
    using assms by (simp_all add: d pcf_D_keeps CS2_adopt_simps)
qed

lemma proc_LIBtdata_flush:
  assumes "LIBsync (LIBline s line) = 1" "st = 0xC \<or> st = 0xD"
  shows "d_sent (net (proc_LIBtdata c st line s) line)
           = d_sent (net s line) @ [slice (LIB_tbuf (LIBline s line)) 0 (unat (LIBtlen (LIBline s line)))]"
    "LIBtlen (LIBline (proc_LIBtdata c st line s) line) = 0"
    "LIBsync (LIBline (proc_LIBtdata c st line s) line) = 0"
    "icw_lcd (proc_LIBtdata c st line s) = icw_lcd s"
    "icw_pcf (proc_LIBtdata c st line s) = icw_pcf s"
    "icw_pcf_prev (proc_LIBtdata c st line s) = icw_pcf_prev s"
  using assms by (auto simp add: proc_LIBtdata_def Let_def line_upd_def net_upd_def)

lemma pcf_C_sdlc:
  assumes "icw_lcd s line = 0x9" "icw_pcf_prev s line \<noteq> icw_pcf s line"
  shows "net (pcf_C line s) = net (proc_LIBtdata (transmitChar s) (icw_pcf s line) line s)"
    "LIBline (pcf_C line s) = LIBline (proc_LIBtdata (transmitChar s) (icw_pcf s line) line s)"
    "icw_lne_stat (pcf_C line s) line = RX"
  using assms by (simp_all add: pcf_C_def Let_def RS232_upd_def)

lemma CS2_scan_C:
  assumes "icw_pcf_nxt s line = 0xC" "icw_pcf s line \<noteq> 0xC" "icw_lcd s line = 0x9"
    "LIBsync (LIBline s line) = 1"
  shows "d_sent (net (CS2_scan line s) line)
           = d_sent (net s line) @ [slice (LIB_tbuf (LIBline s line)) 0 (unat (LIBtlen (LIBline s line)))]"
    "LIBtlen (LIBline (CS2_scan line s) line) = 0"
    "icw_lne_stat (CS2_scan line s) line = RX"
proof -
  let ?a = "CS2_adopt line s"
  have d: "CS2_scan line s = pcf_C line ?a"
    using assms by (simp add: CS2_scan_def CS2_dispatch_def CS2_adopt_simps)
  have l: "icw_lcd ?a line = 0x9" using assms by (simp add: CS2_adopt_simps)
  have p: "icw_pcf_prev ?a line \<noteq> icw_pcf ?a line" using assms by (simp add: CS2_adopt_simps)
  have sy: "LIBsync (LIBline ?a line) = 1" using assms by (simp add: CS2_adopt_simps)
  have st: "icw_pcf ?a line = 0xC \<or> icw_pcf ?a line = 0xD" using assms by (simp add: CS2_adopt_simps)
  show "d_sent (net (CS2_scan line s) line)
           = d_sent (net s line) @ [slice (LIB_tbuf (LIBline s line)) 0 (unat (LIBtlen (LIBline s line)))]"
    unfolding d pcf_C_sdlc(1)[OF l p] proc_LIBtdata_flush(1)[OF sy st]
    by (simp add: CS2_adopt_simps)
  show "LIBtlen (LIBline (CS2_scan line s) line) = 0"
    unfolding d pcf_C_sdlc(2)[OF l p] by (rule proc_LIBtdata_flush(2)[OF sy st])
  show "icw_lne_stat (CS2_scan line s) line = RX"
    unfolding d by (rule pcf_C_sdlc(3)[OF l p])
qed

lemma sending_simps:
  "icw_pcf_nxt to_D 0 = 0xD" "icw_pcf_nxt to_C 0 = 0xC"
  "icw_pcf to_D 0 = 0x9" "icw_pcf to_C 0 = 0x9"
  "icw_lcd to_D 0 = 0x9" "icw_lcd to_C 0 = 0x9"
  "LIBsync (LIBline to_D 0) = 1" "LIBsync (LIBline to_C 0) = 1"
  "LIBtlen (LIBline to_D 0) = 3" "LIBtlen (LIBline to_C 0) = 3"
  "d_sent (net to_D 0) = []" "d_sent (net to_C 0) = []"
  "icw_lne_stat to_D 0 = TX" "icw_lne_stat to_C 0 = TX"
  "slice (LIB_tbuf (LIBline to_D 0)) 0 3 = [0xC1, 0x11, 0x47]"
  "slice (LIB_tbuf (LIBline to_C 0)) 0 3 = [0xC1, 0x11, 0x47]"
  by (simp_all add: to_D_def to_C_def sending_def boot_def slice_def arr_def upt_rec numeral_eq_Suc)

text \<open>
  C7. The line of \<open>to_D\<close> is an SDLC line that has three bytes in its transmit buffer,
  with \<open>LIBsync\<close> set, and PCF D as its next state. The scan cycle that enters state D
  sends nothing on the data connection, leaves the transmit length at 3 and the line
  state at TX. The same line entering state C (\<open>to_C\<close>) sends the three bytes as one
  frame, resets the transmit length and turns the line state to RX; and
  \<^verbatim>\<open>proc_LIBtdata\<close>, had it been called with state D, would have sent the frame.
\<close>

theorem state_D_keeps_frame:
  "icw_pcf_nxt to_D 0 = 0xD \<and> icw_lcd to_D 0 = 0x9
   \<and> LIBsync (LIBline to_D 0) = 1 \<and> LIBtlen (LIBline to_D 0) = 3
   \<and> icw_pcf (CS2_scan 0 to_D) 0 = 0xD
   \<and> d_sent (net (CS2_scan 0 to_D) 0) = []
   \<and> LIBtlen (LIBline (CS2_scan 0 to_D) 0) = 3
   \<and> icw_lne_stat (CS2_scan 0 to_D) 0 = TX
   \<and> d_sent (net (CS2_scan 0 to_C) 0) = [[0xC1, 0x11, 0x47]]
   \<and> LIBtlen (LIBline (CS2_scan 0 to_C) 0) = 0
   \<and> icw_lne_stat (CS2_scan 0 to_C) 0 = RX
   \<and> d_sent (net (proc_LIBtdata 0 0xD 0 to_D) 0) = [[0xC1, 0x11, 0x47]]"
proof -
  have c: "icw_pcf to_C 0 \<noteq> 0xC" by (simp add: sending_simps)
  have st: "(0xD :: u8) = 0xC \<or> (0xD :: u8) = 0xD" by simp
  note D = CS2_scan_D[OF sending_simps(1)]
  note C = CS2_scan_C[OF sending_simps(2) c sending_simps(6) sending_simps(8)]
  note F = proc_LIBtdata_flush(1)[OF sending_simps(7) st, of 0]
  show ?thesis
    by (simp add: D C F sending_simps)
qed

end
